theory Spec2Isabelle
  imports Main
begin

section \<open>External collaborators, effects and errors\<close>

text \<open>
  The database layer (\<^verbatim>\<open>packages/database/src/lib\<close>) is orchestration code around
  collaborators that are not part of the repository: the ORM's entity managers and
  migrator, the database drivers, the file system, \<^verbatim>\<open>mkdirp\<close>, the logger and the
  console. The embedding keeps every such collaborator as a field of an environment
  record: an arbitrary function on an abstract world \<open>'w\<close> that returns a value or throws,
  and that may change the world either way. The theorems hold for all environments; the
  two on the order of the migrations and on transactions fix one collaborator to a model
  taken from the specification. The logger and the console are taken to return normally:
  what they print is appended to the trace.

  A JavaScript exception is a value of \<open>js_error\<close>; an \<^verbatim>\<open>async\<close> method that rejects
  is a computation that returns \<open>Inl\<close>. The source's log and error messages are Chinese
  text; they are rendered here by their English meaning, with the interpolated values in
  the same places.
\<close>

type_synonym path = string

type_synonym em = nat \<comment> \<open>identity of an \<^verbatim>\<open>EntityManager\<close> object\<close>

type_synonym orm = nat \<comment> \<open>identity of the object \<^verbatim>\<open>getKnex()\<close> returns\<close>

datatype js_error =
    Error string \<comment> \<open>\<^verbatim>\<open>new Error(message)\<close>, also what a collaborator throws\<close>
  | TypeError string \<comment> \<open>a property read on \<^verbatim>\<open>null\<close> or \<^verbatim>\<open>undefined\<close>\<close>

datatype level = LOG | ERROR | WARN | DEBUG

datatype call =
    Connect em
  | Close em
  | Execute em string
  | GetKnex em
  | MigratorUp orm
  | MigratorDown orm
  | CreateMigration orm "string option"
  | Mkdirp path
  | ExistsSync path
  | WriteFile path string
  | Transactional em

datatype event =
    Logger level string "js_error option" \<comment> \<open>\<^verbatim>\<open>this.logger.log/error/warn/debug\<close>\<close>
  | Console string \<comment> \<open>\<^verbatim>\<open>console.log\<close> or \<^verbatim>\<open>console.error\<close> of a text\<close>
  | ConsoleError js_error \<comment> \<open>\<^verbatim>\<open>console.error(error)\<close>\<close>
  | Call call \<comment> \<open>a call of an external collaborator\<close>

record 'w env =
  conn_connect :: "em \<Rightarrow> 'w \<Rightarrow> (js_error + unit) \<times> 'w"
  conn_close :: "em \<Rightarrow> 'w \<Rightarrow> (js_error + unit) \<times> 'w"
  em_execute :: "em \<Rightarrow> string \<Rightarrow> 'w \<Rightarrow> (js_error + unit) \<times> 'w"
  em_getKnex :: "em \<Rightarrow> 'w \<Rightarrow> (js_error + orm) \<times> 'w"
  migrator_up :: "orm \<Rightarrow> 'w \<Rightarrow> (js_error + string list option) \<times> 'w"
  migrator_down :: "orm \<Rightarrow> 'w \<Rightarrow> (js_error + unit) \<times> 'w"
  migrator_createMigration :: "orm \<Rightarrow> string option \<Rightarrow> 'w \<Rightarrow> (js_error + string option) \<times> 'w"
  mkdirp :: "path \<Rightarrow> 'w \<Rightarrow> (js_error + unit) \<times> 'w"
  fs_existsSync :: "path \<Rightarrow> 'w \<Rightarrow> (js_error + bool) \<times> 'w"
  fs_writeFile :: "path \<Rightarrow> string \<Rightarrow> 'w \<Rightarrow> (js_error + unit) \<times> 'w"
  path_dirname :: "path \<Rightarrow> path"

text \<open>
  \<open>migrator_up\<close> is \<^verbatim>\<open>orm.getMigrator().up()\<close>: the names of the migrations it reports,
  or \<open>None\<close> for a falsy result. \<open>migrator_createMigration\<close> returns the new file's name,
  or \<open>None\<close> when the migrator made no file.

  The state is the \<^verbatim>\<open>ConnectionManager\<close>'s two injected handles (\<open>None\<close> for
  \<^verbatim>\<open>null\<close>/\<^verbatim>\<open>undefined\<close>), the world of the collaborators, and the trace of everything
  observable the code did, in order.
\<close>

record 'w state =
  postgresEm :: "em option"
  mongoEm :: "em option"
  world :: 'w
  trace :: "event list"

type_synonym ('a, 'w) js = "'w state \<Rightarrow> (js_error + 'a) \<times> 'w state"

definition returnJ :: "'a \<Rightarrow> ('a, 'w) js" where
  "returnJ x = (\<lambda>s. (Inr x, s))"

definition throwJ :: "js_error \<Rightarrow> ('a, 'w) js" where
  "throwJ e = (\<lambda>s. (Inl e, s))"

definition bindJ :: "('a, 'w) js \<Rightarrow> ('a \<Rightarrow> ('b, 'w) js) \<Rightarrow> ('b, 'w) js" where
  "bindJ m f = (\<lambda>s. case m s of (Inl e, s') \<Rightarrow> (Inl e, s') | (Inr x, s') \<Rightarrow> f x s')"

definition thenJ :: "('a, 'w) js \<Rightarrow> ('b, 'w) js \<Rightarrow> ('b, 'w) js" where
  "thenJ m k = bindJ m (\<lambda>_. k)"

definition tryCatch :: "('a, 'w) js \<Rightarrow> (js_error \<Rightarrow> ('a, 'w) js) \<Rightarrow> ('a, 'w) js" where
  "tryCatch m h = (\<lambda>s. case m s of (Inl e, s') \<Rightarrow> h e s' | (Inr x, s') \<Rightarrow> (Inr x, s'))"

definition emit :: "event \<Rightarrow> (unit, 'w) js" where
  "emit ev = (\<lambda>s. (Inr (), s\<lparr>trace := trace s @ [ev]\<rparr>))"

definition external :: "call \<Rightarrow> ('w \<Rightarrow> (js_error + 'a) \<times> 'w) \<Rightarrow> ('a, 'w) js" where
  "external c f = (\<lambda>s. case f (world s) of
     (r, w') \<Rightarrow> (r, s\<lparr>world := w', trace := trace s @ [Call c]\<rparr>))"

definition field :: "('w state \<Rightarrow> em option) \<Rightarrow> string \<Rightarrow> (em, 'w) js" where
  \<comment> \<open>\<^verbatim>\<open>this.f.prop\<close>: reading a property of a missing handle throws a \<^verbatim>\<open>TypeError\<close>\<close>
  "field f prop = (\<lambda>s. case f s of None \<Rightarrow> (Inl (TypeError prop), s) | Some e \<Rightarrow> (Inr e, s))"

section \<open>\<^verbatim>\<open>ConnectionManager\<close>\<close>

definition getPostgresConnection :: "(em, 'w) js" where
  "getPostgresConnection = (\<lambda>s. case postgresEm s of
     None \<Rightarrow> (Inl (Error ''PostgreSQL connection is not available''), s)
   | Some e \<Rightarrow> (Inr e, s))"

definition getMongoConnection :: "(em, 'w) js" where
  "getMongoConnection = (\<lambda>s. case mongoEm s of
     None \<Rightarrow> (Inl (Error ''MongoDB connection is not available''), s)
   | Some e \<Rightarrow> (Inr e, s))"

definition isPostgresHealthy :: "'w env \<Rightarrow> (bool, 'w) js" where
  "isPostgresHealthy env =
     tryCatch
       (bindJ (field postgresEm ''execute'') (\<lambda>e.
        thenJ (external (Execute e ''SELECT 1'') (em_execute env e ''SELECT 1''))
          (returnJ True)))
       (\<lambda>error.
        thenJ (emit (Logger ERROR ''PostgreSQL health check failed'' (Some error)))
          (returnJ False))"

definition isMongoHealthy :: "'w env \<Rightarrow> (bool, 'w) js" where
  "isMongoHealthy env =
     tryCatch
       (bindJ (field mongoEm ''execute'') (\<lambda>e.
        thenJ (external (Execute e ''ping'') (em_execute env e ''ping''))
          (returnJ True)))
       (\<lambda>error.
        thenJ (emit (Logger ERROR ''MongoDB health check failed'' (Some error)))
          (returnJ False))"

definition initializeConnections :: "'w env \<Rightarrow> (unit, 'w) js" where
  "initializeConnections env =
     thenJ
       (\<lambda>s. case postgresEm s of
          None \<Rightarrow> returnJ () s
        | Some e \<Rightarrow>
            thenJ (external (Connect e) (conn_connect env e))
              (emit (Logger LOG ''PostgreSQL connection established'' None)) s)
       (\<lambda>s. case mongoEm s of
          None \<Rightarrow> returnJ () s
        | Some e \<Rightarrow>
            thenJ (external (Connect e) (conn_connect env e))
              (emit (Logger LOG ''MongoDB connection established'' None)) s)"

definition closeConnections :: "'w env \<Rightarrow> (unit, 'w) js" where
  "closeConnections env =
     thenJ
       (\<lambda>s. case postgresEm s of
          None \<Rightarrow> returnJ () s
        | Some e \<Rightarrow>
            thenJ (external (Close e) (conn_close env e))
              (emit (Logger LOG ''PostgreSQL connection closed'' None)) s)
       (\<lambda>s. case mongoEm s of
          None \<Rightarrow> returnJ () s
        | Some e \<Rightarrow>
            thenJ (external (Close e) (conn_close env e))
              (emit (Logger LOG ''MongoDB connection closed'' None)) s)"

definition onModuleInit :: "'w env \<Rightarrow> (unit, 'w) js" where
  "onModuleInit env =
     thenJ (emit (Logger LOG ''initializing database connections...'' None))
       (tryCatch
          (thenJ (initializeConnections env)
             (emit (Logger LOG ''database connections initialized'' None)))
          (\<lambda>error.
           thenJ (emit (Logger ERROR ''database connection initialization failed'' (Some error)))
             (throwJ error)))"

definition onModuleDestroy :: "'w env \<Rightarrow> (unit, 'w) js" where
  "onModuleDestroy env =
     thenJ (emit (Logger LOG ''closing database connections...'' None))
       (tryCatch
          (thenJ (closeConnections env)
             (emit (Logger LOG ''database connections closed'' None)))
          (\<lambda>error.
           emit (Logger ERROR ''error while closing database connections'' (Some error))))"

section \<open>Numbers as text\<close>

text \<open>
  \<^verbatim>\<open>${n}\<close> for a non-negative integer \<open>n\<close>: its decimal digits, most significant
  first, with no leading zero.
\<close>

definition digit_char :: "nat \<Rightarrow> char" where
  "digit_char d = char_of (48 + d)"

fun toString10 :: "nat \<Rightarrow> string" where
  "toString10 n =
     (if n < 10 then [digit_char n] else toString10 (n div 10) @ [digit_char (n mod 10)])"

section \<open>\<^verbatim>\<open>MigrationExecutor\<close>\<close>

primrec forEach :: "'a list \<Rightarrow> ('a \<Rightarrow> (unit, 'w) js) \<Rightarrow> (unit, 'w) js" where
  "forEach [] f = returnJ ()"
| "forEach (x # xs) f = thenJ (f x) (forEach xs f)"

definition getMikroORM :: "'w env \<Rightarrow> string \<Rightarrow> (orm, 'w) js" where
  "getMikroORM env database =
     (if database = ''postgresql'' then
        bindJ getPostgresConnection (\<lambda>e. external (GetKnex e) (em_getKnex env e))
      else if database = ''mongodb'' then
        bindJ getMongoConnection (\<lambda>e. external (GetKnex e) (em_getKnex env e))
      else throwJ (Error (''unsupported database type: '' @ database)))"

definition runMigrations :: "'w env \<Rightarrow> string \<Rightarrow> (unit, 'w) js" where
  "runMigrations env database =
     thenJ (emit (Logger LOG (''starting '' @ database @ '' database migrations...'') None))
       (tryCatch
          (bindJ (getMikroORM env database) (\<lambda>orm.
           bindJ (external (MigratorUp orm) (migrator_up env orm)) (\<lambda>migrations.
             case migrations of
               Some (m # ms) \<Rightarrow>
                 thenJ
                   (forEach (m # ms) (\<lambda>migration.
                      emit (Console (''migration '' @ migration @ '' executed successfully!''))))
                   (emit (Logger LOG
                      (database @ '' database migrations finished, ''
                         @ toString10 (length (m # ms)) @ '' migrations executed'') None))
             | _ \<Rightarrow>
                 thenJ (emit (Console (''no pending '' @ database @ '' database migrations'')))
                   (emit (Logger LOG (database @ '' database has no pending migrations'') None)))))
          (\<lambda>error.
           thenJ (emit (Console (database @ '' database migration failed:'')))
          (thenJ (emit (ConsoleError error))
          (thenJ (emit (Logger ERROR (database @ '' database migration failed'') (Some error)))
             (throwJ error)))))"

definition revertLastMigration :: "'w env \<Rightarrow> string \<Rightarrow> (unit, 'w) js" where
  "revertLastMigration env database =
     thenJ
       (emit (Logger LOG (''starting rollback of the last '' @ database @ '' database migration...'')
          None))
       (tryCatch
          (bindJ (getMikroORM env database) (\<lambda>orm.
           thenJ (external (MigratorDown orm) (migrator_down env orm))
          (thenJ
             (emit (Console (database @ '' database last migration rolled back successfully!'')))
             (emit (Logger LOG (database @ '' database migration rollback finished'') None)))))
          (\<lambda>error.
           thenJ (emit (Console (database @ '' database migration rollback failed:'')))
          (thenJ (emit (ConsoleError error))
          (thenJ (emit (Logger ERROR (database @ '' database migration rollback failed'') (Some error)))
             (throwJ error)))))"

definition generateMigration :: "'w env \<Rightarrow> string \<Rightarrow> string \<Rightarrow> (unit, 'w) js" where
  "generateMigration env database name =
     (if name = [] then
        emit (Console ''migration name is required, please specify a migration name!'')
      else
        thenJ
          (emit (Logger LOG (''starting to generate '' @ database @ '' database migration: '' @ name)
             None))
          (tryCatch
             (bindJ (getMikroORM env database) (\<lambda>orm.
              bindJ (external (CreateMigration orm None) (migrator_createMigration env orm None))
                (\<lambda>migration.
                 case migration of
                   Some fileName \<Rightarrow>
                     thenJ (emit (Console (''migration '' @ fileName @ '' generated successfully'')))
                       (emit (Logger LOG
                          (database @ '' database migration generated: '' @ fileName) None))
                 | None \<Rightarrow>
                     thenJ
                       (emit (Console (''no '' @ database
                          @ '' database schema changes detected, cannot generate a migration'')))
                       (emit (Logger LOG (database @ '' database has no schema changes'') None)))))
             (\<lambda>error.
              thenJ (emit (Console (database @ '' database migration generation failed:'')))
             (thenJ (emit (ConsoleError error))
             (thenJ
                (emit (Logger ERROR (database @ '' database migration generation failed'')
                   (Some error)))
                (throwJ error))))))"

definition createMigration :: "'w env \<Rightarrow> string \<Rightarrow> string \<Rightarrow> (unit, 'w) js" where
  "createMigration env database name =
     (if name = [] then
        emit (Console ''migration name is required, please specify a migration name!'')
      else
        thenJ
          (emit (Logger LOG
             (''starting to create blank '' @ database @ '' database migration: '' @ name) None))
          (tryCatch
             (bindJ (getMikroORM env database) (\<lambda>orm.
              bindJ
                (external (CreateMigration orm (Some name)) (migrator_createMigration env orm (Some name)))
                (\<lambda>migration.
                 case migration of
                   Some fileName \<Rightarrow>
                     thenJ
                       (emit (Console (''blank migration '' @ fileName @ '' created successfully'')))
                       (emit (Logger LOG
                          (database @ '' database blank migration created: '' @ fileName) None))
                 | None \<Rightarrow> returnJ ())))
             (\<lambda>error.
              thenJ (emit (Console (database @ '' database blank migration creation failed:'')))
             (thenJ (emit (ConsoleError error))
             (thenJ
                (emit (Logger ERROR (database @ '' database blank migration creation failed'')
                   (Some error)))
                (throwJ error))))))"

section \<open>\<^verbatim>\<open>MigrationUtils\<close>: files\<close>

definition createDirectories :: "'w env \<Rightarrow> path \<Rightarrow> (unit, 'w) js" where
  "createDirectories env directory =
     tryCatch
       (thenJ (external (Mkdirp directory) (mkdirp env directory))
          (emit (Logger DEBUG (''directory created: '' @ directory) None)))
       (\<lambda>err.
        thenJ (emit (Logger ERROR (''directory creation failed: '' @ directory) (Some err)))
          (throwJ err))"

definition fileExists :: "'w env \<Rightarrow> path \<Rightarrow> (bool, 'w) js" where
  "fileExists env filePath =
     tryCatch
       (bindJ (external (ExistsSync filePath) (fs_existsSync env filePath)) (\<lambda>exists.
        thenJ
          (emit (Logger DEBUG
             (''file existence check: '' @ filePath @ '' - '' @ (if exists then ''true'' else ''false''))
             None))
          (returnJ exists)))
       (\<lambda>error.
        thenJ (emit (Logger ERROR (''file existence check failed: '' @ filePath) (Some error)))
          (returnJ False))"

text \<open>
  \<^verbatim>\<open>createFile\<close> returns the promise of the write without awaiting it, so a failed write
  rejects the call without passing through the \<^verbatim>\<open>catch\<close> block: the \<^verbatim>\<open>try\<close> covers
  the directory creation and the existence check only. The \<^verbatim>\<open>try\<close> block's value says
  whether the write follows.
\<close>

definition createFile :: "'w env \<Rightarrow> path \<Rightarrow> string \<Rightarrow> bool \<Rightarrow> (unit, 'w) js" where
  "createFile env filePath content override =
     bindJ
       (tryCatch
          (thenJ (createDirectories env (path_dirname env filePath))
          (bindJ (if \<not> override then fileExists env filePath else returnJ False) (\<lambda>skip.
             if skip then
               thenJ
                 (emit (Logger WARN (''file already exists, creation skipped: '' @ filePath) None))
                 (returnJ False)
             else returnJ True)))
          (\<lambda>error.
           thenJ (emit (Logger ERROR (''file creation failed: '' @ filePath) (Some error)))
             (throwJ error)))
       (\<lambda>write.
        if write then
          tryCatch
            (thenJ (external (WriteFile filePath content) (fs_writeFile env filePath content))
               (emit (Logger DEBUG (''file created: '' @ filePath) None)))
            (\<lambda>err.
             thenJ (emit (Logger ERROR (''file creation failed: '' @ filePath) (Some err)))
               (throwJ err))
        else returnJ ())"

section \<open>\<^verbatim>\<open>MigrationUtils\<close>: file names\<close>

text \<open>
  The two file name functions apply a regular expression literal. The literals are kept as
  data, and \<open>rmatch\<close> is a backtracking matcher in the order JavaScript tries the
  alternatives: the list of ways a pattern can match at a position, the preferred way
  first (a greedy star tries one more iteration before it stops, and an iteration that
  consumes nothing is not repeated). A matcher state is the position, the rest of the
  input from there, and the capture groups filled so far.

  A string is a list of 8-bit characters here, a list of UTF-16 code units in JavaScript;
  the classes of the two patterns hold ASCII characters only (\<^verbatim>\<open>\d\<close> is \<^verbatim>\<open>[0-9]\<close> in
  JavaScript), and neither pattern has the multi-line flag, so \<^verbatim>\<open>^\<close> and \<^verbatim>\<open>$\<close> match
  at the two ends of the input only.
\<close>

datatype rx =
    Bol \<comment> \<open>\<^verbatim>\<open>^\<close>\<close>
  | Eol \<comment> \<open>\<^verbatim>\<open>$\<close>\<close>
  | Chr char \<comment> \<open>one literal character\<close>
  | OneOf "(char \<times> char) list" \<comment> \<open>a class, as its ranges: \<^verbatim>\<open>[a-zA-Z]\<close>\<close>
  | Seq rx rx
  | Alt rx rx \<comment> \<open>\<^verbatim>\<open>a|b\<close>\<close>
  | Star rx \<comment> \<open>\<^verbatim>\<open>a*\<close>, greedy\<close>
  | Repeat nat rx \<comment> \<open>\<^verbatim>\<open>a{n}\<close>\<close>
  | Group nat rx \<comment> \<open>the capturing group of that number\<close>

type_synonym captures = "nat \<Rightarrow> string option"

type_synonym mstate = "nat \<times> string \<times> captures"

definition in_class :: "(char \<times> char) list \<Rightarrow> char \<Rightarrow> bool" where
  "in_class rs c =
     list_ex (\<lambda>(lo, hi). (of_char lo :: nat) \<le> of_char c \<and> (of_char c :: nat) \<le> of_char hi) rs"

primrec repeat_iter :: "nat \<Rightarrow> (mstate \<Rightarrow> mstate list) \<Rightarrow> mstate \<Rightarrow> mstate list" where
  "repeat_iter 0 f st = [st]"
| "repeat_iter (Suc n) f st = concat (map (repeat_iter n f) (f st))"

text \<open>
  The star's fuel is the length of the rest of the input: every iteration that is followed
  up consumes at least one character.
\<close>

primrec star_iter :: "nat \<Rightarrow> (mstate \<Rightarrow> mstate list) \<Rightarrow> mstate \<Rightarrow> mstate list" where
  "star_iter 0 f st = [st]"
| "star_iter (Suc n) f st =
     concat
       (map (\<lambda>st'. if length (fst (snd st')) < length (fst (snd st)) then star_iter n f st'
                   else [])
          (f st))
     @ [st]"

primrec rmatch :: "rx \<Rightarrow> mstate \<Rightarrow> mstate list" where
  "rmatch Bol st = (if fst st = 0 then [st] else [])"
| "rmatch Eol st = (if fst (snd st) = [] then [st] else [])"
| "rmatch (Chr x) st =
     (case st of (i, r, c) \<Rightarrow>
        (case r of [] \<Rightarrow> [] | y # ys \<Rightarrow> if y = x then [(Suc i, ys, c)] else []))"
| "rmatch (OneOf rs) st =
     (case st of (i, r, c) \<Rightarrow>
        (case r of [] \<Rightarrow> [] | y # ys \<Rightarrow> if in_class rs y then [(Suc i, ys, c)] else []))"
| "rmatch (Seq a b) st = concat (map (rmatch b) (rmatch a st))"
| "rmatch (Alt a b) st = rmatch a st @ rmatch b st"
| "rmatch (Star a) st = star_iter (length (fst (snd st))) (rmatch a) st"
| "rmatch (Repeat n a) st = repeat_iter n (rmatch a) st"
| "rmatch (Group k a) st =
     map (\<lambda>(i', r', c'). (i', r', c'(k \<mapsto> take (i' - fst st) (fst (snd st)))))
       (rmatch a st)"

text \<open>
  \<^verbatim>\<open>RegExp.prototype.exec\<close> without the global flag: the first match at the leftmost
  position that has one, trying the positions from 0 to the end of the input.
\<close>

fun exec_from :: "rx \<Rightarrow> nat \<Rightarrow> string \<Rightarrow> mstate option" where
  "exec_from re i s =
     (case rmatch re (i, s, Map.empty) of
        st # _ \<Rightarrow> Some st
      | [] \<Rightarrow> (case s of [] \<Rightarrow> None | _ # s' \<Rightarrow> exec_from re (Suc i) s'))"

definition regex_test :: "rx \<Rightarrow> string \<Rightarrow> bool" where
  \<comment> \<open>\<^verbatim>\<open>pattern.test(s)\<close>\<close>
  "regex_test re s = (exec_from re 0 s \<noteq> None)"

definition string_match :: "string \<Rightarrow> rx \<Rightarrow> captures option" where
  \<comment> \<open>\<^verbatim>\<open>s.match(pattern)\<close>: the groups of the match, or \<open>None\<close> for \<^verbatim>\<open>null\<close>\<close>
  "string_match s re = map_option (\<lambda>(i, r, c). c) (exec_from re 0 s)"

definition digit :: rx where
  "digit = OneOf [(CHR ''0'', CHR ''9'')]"

definition letter :: rx where
  "letter = OneOf [(CHR ''a'', CHR ''z''), (CHR ''A'', CHR ''Z'')]"

definition alnum :: rx where
  "alnum = OneOf [(CHR ''a'', CHR ''z''), (CHR ''A'', CHR ''Z''), (CHR ''0'', CHR ''9'')]"

definition ts_or_js :: rx where
  "ts_or_js = Alt (Seq (Chr CHR ''t'') (Chr CHR ''s'')) (Seq (Chr CHR ''j'') (Chr CHR ''s''))"

definition validate_pattern :: rx where
  \<comment> \<open>\<^verbatim>\<open>/^\d{13}-[a-zA-Z][a-zA-Z0-9]*\.(ts|js)$/\<close>\<close>
  "validate_pattern =
     Seq Bol (Seq (Repeat 13 digit) (Seq (Chr CHR ''-'') (Seq letter (Seq (Star alnum)
       (Seq (Chr CHR ''.'') (Seq (Group 1 ts_or_js) Eol))))))"

definition parse_pattern :: rx where
  \<comment> \<open>\<^verbatim>\<open>/^(\d{13})-([a-zA-Z][a-zA-Z0-9]*)\.(ts|js)$/\<close>\<close>
  "parse_pattern =
     Seq Bol (Seq (Group 1 (Repeat 13 digit)) (Seq (Chr CHR ''-'')
       (Seq (Group 2 (Seq letter (Star alnum)))
       (Seq (Chr CHR ''.'') (Seq (Group 3 ts_or_js) Eol)))))"

definition validateMigrationFileName :: "string \<Rightarrow> bool" where
  "validateMigrationFileName fileName = regex_test validate_pattern fileName"

text \<open>
  A JavaScript number that is a non-negative integer, or \<^verbatim>\<open>NaN\<close>. The numbers met here
  are below \<open>10 ^ 13\<close>, which a double holds exactly. \<open>parseInt10\<close> is \<^verbatim>\<open>parseInt(v, 10)\<close>
  on a capture group: \<^verbatim>\<open>NaN\<close> for a missing group or when no digit leads, else the value
  of the leading digits (white space and signs, which \<^verbatim>\<open>parseInt\<close> also accepts, cannot
  occur in group 1).
\<close>

datatype js_number = NaN | Num nat

definition decimal :: "string \<Rightarrow> nat" where
  "decimal ds = foldl (\<lambda>n c. 10 * n + (of_char c - 48)) 0 ds"

definition parseInt10 :: "string option \<Rightarrow> js_number" where
  "parseInt10 v =
     (case v of
        None \<Rightarrow> NaN
      | Some s \<Rightarrow>
          (case takeWhile (in_class [(CHR ''0'', CHR ''9'')]) s of
             [] \<Rightarrow> NaN
           | d # ds \<Rightarrow> Num (decimal (d # ds))))"

record parsed =
  timestamp :: js_number
  name :: "string option" \<comment> \<open>\<open>None\<close> for \<^verbatim>\<open>undefined\<close>\<close>

definition parseMigrationFileName :: "string \<Rightarrow> parsed option" where
  "parseMigrationFileName fileName =
     (case string_match fileName parse_pattern of
        None \<Rightarrow> None
      | Some m \<Rightarrow> Some \<lparr>timestamp = parseInt10 (m 1), name = m 2\<rparr>)"

subsection \<open>The grammar of the specification\<close>

text \<open>
  This definition follows the specification's words, not the source: the file names
  \<^verbatim>\<open><13-digit-timestamp>-<alphanumeric-name-starting-with-letter>.<ts|js>\<close>, with the
  digits and the letters listed one by one.
\<close>

definition is_digit :: "char \<Rightarrow> bool" where
  "is_digit c = (c \<in> set ''0123456789'')"

definition is_letter :: "char \<Rightarrow> bool" where
  "is_letter c = (c \<in> set ''abcdefghijklmnopqrstuvwxyzABCDEFGHIJKLMNOPQRSTUVWXYZ'')"

definition spec_migration_file_names :: "string set" where
  "spec_migration_file_names =
     {ds @ ''-'' @ nm @ ''.'' @ ext | ds nm ext.
        length ds = 13 \<and> (\<forall>d\<in>set ds. is_digit d)
        \<and> nm \<noteq> [] \<and> is_letter (hd nm) \<and> (\<forall>x\<in>set (tl nm). is_letter x \<or> is_digit x)
        \<and> (ext = ''ts'' \<or> ext = ''js'')}"

section \<open>\<^verbatim>\<open>EntityManagerService\<close>\<close>

definition getEntityManager :: "string \<Rightarrow> (em, 'w) js" where
  "getEntityManager database =
     (if database = ''postgresql'' then getPostgresConnection
      else if database = ''mongodb'' then getMongoConnection
      else throwJ (Error (''unsupported database type: '' @ database)))"

text \<open>
  The callback of a transaction works on the entity manager it is given; what it does is a
  function on the world that returns or throws. \<^verbatim>\<open>em.transactional\<close> is a collaborator;
  as its result type follows the callback's, it is a parameter of \<open>transaction\<close> rather than
  a field of the environment.
\<close>

type_synonym ('a, 'w) work = "em \<Rightarrow> 'w \<Rightarrow> (js_error + 'a) \<times> 'w"

definition transaction ::
  "(em \<Rightarrow> ('a, 'w) work \<Rightarrow> 'w \<Rightarrow> (js_error + 'a) \<times> 'w)
     \<Rightarrow> string \<Rightarrow> ('a, 'w) work \<Rightarrow> ('a, 'w) js" where
  "transaction em_transactional database callback =
     tryCatch
       (bindJ (getEntityManager database) (\<lambda>em.
        bindJ (external (Transactional em) (em_transactional em callback)) (\<lambda>result.
        thenJ (emit (Logger DEBUG (''transaction finished: '' @ database) None))
          (returnJ result))))
       (\<lambda>error.
        thenJ (emit (Logger ERROR (''transaction failed: '' @ database) (Some error)))
          (throwJ error))"

section \<open>Collaborators modelled from the specification\<close>

text \<open>
  Modelled from the spec: the migrator behind \<^verbatim>\<open>orm.getMigrator().up()\<close>, which is the
  ORM's and not among the repository's files. The specification's words: a Migration Unit
  is a named, timestamped change with an apply operation and a status; the units of a
  target are ordered by timestamp; applying all pending units "applies every pending
  Migration Unit, strictly in timestamp order; stops at the first failure (does not attempt
  subsequent units)"; a unit goes from pending to executed on a successful apply and
  stays as it was on a failed one.

  \<open>unit_up\<close> says what applying the unit does: \<open>None\<close> when it succeeds, the error when it
  throws. \<open>applied_order\<close> records the names of the units applied, in the order of their
  application.
\<close>

datatype unit_status = Pending | Executed | Failed

record migration_unit =
  unit_name :: string
  unit_timestamp :: nat
  unit_status :: unit_status
  unit_up :: "js_error option"

record migrations =
  units :: "migration_unit list"
  applied_order :: "string list"

definition mark_executed :: "string \<Rightarrow> migration_unit list \<Rightarrow> migration_unit list" where
  "mark_executed nm us =
     map (\<lambda>u. if unit_name u = nm then u\<lparr>unit_status := Executed\<rparr> else u) us"

fun apply_units ::
  "migration_unit list \<Rightarrow> migrations \<Rightarrow> (js_error + string list) \<times> migrations" where
  "apply_units [] w = (Inr [], w)"
| "apply_units (u # us) w =
     (case unit_up u of
        Some e \<Rightarrow> (Inl e, w)
      | None \<Rightarrow>
          (case apply_units us
                  (w\<lparr>units := mark_executed (unit_name u) (units w),
                     applied_order := applied_order w @ [unit_name u]\<rparr>) of
             (Inl e, w') \<Rightarrow> (Inl e, w')
           | (Inr names, w') \<Rightarrow> (Inr (unit_name u # names), w')))"

definition pending_units :: "migrations \<Rightarrow> migration_unit list" where
  "pending_units w = sort_key unit_timestamp [u \<leftarrow> units w. unit_status u = Pending]"

definition spec_migrator_up ::
  "orm \<Rightarrow> migrations \<Rightarrow> (js_error + string list option) \<times> migrations" where
  "spec_migrator_up orm w =
     (case apply_units (pending_units w) w of
        (Inl e, w') \<Rightarrow> (Inl e, w')
      | (Inr names, w') \<Rightarrow> (Inr (Some names), w'))"

text \<open>
  Modelled from the spec: the ORM's \<^verbatim>\<open>em.transactional(work)\<close>, which is not among the
  repository's files. The specification's words: it "runs \<open>work\<close> with a scoped
  unit-of-work; all persistence operations inside \<open>work\<close> either all commit or all roll back
  atomically", and on a failure thrown by \<open>work\<close> the rollback has occurred before the
  error is raised again. The persisted entities are a map from identifiers to values;
  \<open>tx_log\<close> records what the transaction manager did.
\<close>

datatype tx_event = Begin | Commit | Rollback

record 'v tx_world =
  store :: "string \<rightharpoonup> 'v"
  tx_log :: "tx_event list"

definition spec_transactional ::
  "em \<Rightarrow> ('a, 'v tx_world) work \<Rightarrow> 'v tx_world \<Rightarrow> (js_error + 'a) \<times> 'v tx_world" where
  "spec_transactional em work w =
     (case work em (w\<lparr>tx_log := tx_log w @ [Begin]\<rparr>) of
        (Inr x, w') \<Rightarrow> (Inr x, w'\<lparr>tx_log := tx_log w' @ [Commit]\<rparr>)
      | (Inl e, w') \<Rightarrow> (Inl e, w'\<lparr>store := store w, tx_log := tx_log w' @ [Rollback]\<rparr>))"

section \<open>An example environment\<close>

text \<open>
  A small concrete world for the closed examples: the names of the executed and of the
  pending migrations of one database, and the files on disk. In \<open>sim_env\<close> every
  collaborator succeeds: \<open>up\<close> applies all pending migrations in their order, \<open>down\<close>
  reverts the last executed one and does nothing when there is none. The examples
  replace single fields by failing ones.
\<close>

record sim =
  applied :: "string list"
  waiting :: "string list"
  files :: "(path \<times> string) list"

definition sim_env :: "sim env" where
  "sim_env = \<lparr>
     conn_connect = (\<lambda>e w. (Inr (), w)),
     conn_close = (\<lambda>e w. (Inr (), w)),
     em_execute = (\<lambda>e q w. (Inr (), w)),
     em_getKnex = (\<lambda>e w. (Inr e, w)),
     migrator_up = (\<lambda>orm w.
        (Inr (Some (waiting w)), w\<lparr>applied := applied w @ waiting w, waiting := []\<rparr>)),
     migrator_down = (\<lambda>orm w.
        (Inr (),
         if applied w = [] then w
         else w\<lparr>applied := butlast (applied w), waiting := last (applied w) # waiting w\<rparr>)),
     migrator_createMigration = (\<lambda>orm name w. (Inr None, w)),
     mkdirp = (\<lambda>p w. (Inr (), w)),
     fs_existsSync = (\<lambda>p w. (Inr (map_of (files w) p \<noteq> None), w)),
     fs_writeFile = (\<lambda>p c w. (Inr (), w\<lparr>files := (p, c) # files w\<rparr>)),
     path_dirname = (\<lambda>p. rev (drop 1 (dropWhile (\<lambda>c. c \<noteq> CHR ''/'') (rev p))))
   \<rparr>"

definition sim_state :: "string list \<Rightarrow> string list \<Rightarrow> (path \<times> string) list \<Rightarrow> sim state" where
  \<comment> \<open>both handles injected (objects 1 and 2), nothing done yet\<close>
  "sim_state ex pe fs =
     \<lparr>postgresEm = Some 1, mongoEm = Some 2,
      world = \<lparr>applied = ex, waiting = pe, files = fs\<rparr>, trace = []\<rparr>"

definition fails_for :: "em \<Rightarrow> em \<Rightarrow> 'w \<Rightarrow> (js_error + unit) \<times> 'w" where
  \<comment> \<open>an operation that throws for the object \<open>bad\<close> and succeeds for every other\<close>
  "fails_for bad e w = (if e = bad then (Inl (Error ''connection lost''), w) else (Inr (), w))"

definition always_fails :: "'a \<Rightarrow> 'b \<Rightarrow> 'w \<Rightarrow> (js_error + 'c) \<times> 'w" where
  "always_fails x y w = (Inl (Error ''connection lost''), w)"

text \<open>
  \<open>quiet_env\<close> is an environment for any world: every collaborator succeeds and leaves the
  world as it is. The three units of the examples are listed out of order; the second by
  timestamp can be made to fail.
\<close>

definition quiet_env :: "'w env" where
  "quiet_env = \<lparr>
     conn_connect = (\<lambda>e w. (Inr (), w)),
     conn_close = (\<lambda>e w. (Inr (), w)),
     em_execute = (\<lambda>e q w. (Inr (), w)),
     em_getKnex = (\<lambda>e w. (Inr e, w)),
     migrator_up = (\<lambda>orm w. (Inr None, w)),
     migrator_down = (\<lambda>orm w. (Inr (), w)),
     migrator_createMigration = (\<lambda>orm name w. (Inr None, w)),
     mkdirp = (\<lambda>p w. (Inr (), w)),
     fs_existsSync = (\<lambda>p w. (Inr False, w)),
     fs_writeFile = (\<lambda>p c w. (Inr (), w)),
     path_dirname = (\<lambda>p. p)
   \<rparr>"

definition pending_unit :: "string \<Rightarrow> nat \<Rightarrow> js_error option \<Rightarrow> migration_unit" where
  "pending_unit nm ts up =
     \<lparr>unit_name = nm, unit_timestamp = ts, unit_status = Pending, unit_up = up\<rparr>"

definition three_units :: "js_error option \<Rightarrow> migration_unit list" where
  "three_units second =
     [pending_unit ''T3'' 1700000000003 None,
      pending_unit ''T1'' 1700000000001 None,
      pending_unit ''T2'' 1700000000002 second]"

definition fresh_state :: "'w \<Rightarrow> 'w state" where
  \<comment> \<open>both handles injected (objects 1 and 2), nothing done yet\<close>
  "fresh_state w = \<lparr>postgresEm = Some 1, mongoEm = Some 2, world = w, trace = []\<rparr>"

definition write_then_fail :: "(unit, string tx_world) work" where
  \<comment> \<open>a callback that persists one entity and then throws\<close>
  "write_then_fail em w =
     (Inl (Error ''constraint violated''), w\<lparr>store := (store w)(''user-1'' \<mapsto> ''Ada'')\<rparr>)"

section \<open>Properties\<close>

declare toString10.simps [simp del]

declare exec_from.simps [simp del]

subsection \<open>Running computations\<close>

lemma returnJ_apply: "returnJ x s = (Inr x, s)"
  by (simp add: returnJ_def)

lemma throwJ_apply: "throwJ e s = (Inl e, s)"
  by (simp add: throwJ_def)

lemma bindJ_apply:
  "bindJ m f s = (case m s of (Inl e, s') \<Rightarrow> (Inl e, s') | (Inr x, s') \<Rightarrow> f x s')"
  by (simp add: bindJ_def)

lemma thenJ_apply:
  "thenJ m k s = (case m s of (Inl e, s') \<Rightarrow> (Inl e, s') | (Inr x, s') \<Rightarrow> k s')"
  by (simp add: thenJ_def bindJ_def)

lemma tryCatch_apply:
  "tryCatch m h s = (case m s of (Inl e, s') \<Rightarrow> h e s' | (Inr x, s') \<Rightarrow> (Inr x, s'))"
  by (simp add: tryCatch_def)

lemma emit_apply: "emit ev s = (Inr (), s\<lparr>trace := trace s @ [ev]\<rparr>)"
  by (simp add: emit_def)

lemma external_apply:
  "external c f s =
     (case f (world s) of (r, w') \<Rightarrow> (r, s\<lparr>world := w', trace := trace s @ [Call c]\<rparr>))"
  by (simp add: external_def)

lemma field_apply:
  "field f prop s = (case f s of None \<Rightarrow> (Inl (TypeError prop), s) | Some e \<Rightarrow> (Inr e, s))"
  by (simp add: field_def)

lemmas js_simps = returnJ_apply throwJ_apply bindJ_apply thenJ_apply tryCatch_apply emit_apply
  external_apply field_apply

lemma forEach_emit:
  "forEach xs (\<lambda>x. emit (f x)) s = (Inr (), s\<lparr>trace := trace s @ map f xs\<rparr>)"
  by (induction xs arbitrary: s) (simp_all add: js_simps)

lemmas sim_simps = sim_env_def sim_state_def fails_for_def always_fails_def

subsection \<open>Migrations without a name\<close>

text \<open>
  C10. For every database target (indeed every \<open>database\<close> string), every environment
  and every state, \<^verbatim>\<open>generateMigration\<close> and \<^verbatim>\<open>createMigration\<close> called with the
  empty name return normally; the only thing they do is print one console line. No
  collaborator is called (no \<open>Call\<close> event is added to the trace), and the world, with its
  migration files, is the one they started in.
\<close>

theorem empty_name_is_a_silent_noop:
  "generateMigration env database [] s =
     (Inr (), s\<lparr>trace := trace s
        @ [Console ''migration name is required, please specify a migration name!'']\<rparr>)
   \<and> createMigration env database [] s =
     (Inr (), s\<lparr>trace := trace s
        @ [Console ''migration name is required, please specify a migration name!'']\<rparr>)"
  by (simp add: generateMigration_def createMigration_def emit_apply)

theorem empty_name_is_a_silent_noop_witness:
  "fst (generateMigration (sim_env\<lparr>migrator_createMigration := always_fails\<rparr>) ''postgresql'' []
          (sim_state [] [] [])) = Inr ()
   \<and> world (snd (createMigration (sim_env\<lparr>migrator_createMigration := always_fails\<rparr>) ''mongodb'' []
          (sim_state [] [] []))) = \<lparr>applied = [], waiting = [], files = []\<rparr>"
  using empty_name_is_a_silent_noop
    [of "sim_env\<lparr>migrator_createMigration := always_fails\<rparr>" "''postgresql''" "sim_state [] [] []"]
    empty_name_is_a_silent_noop
    [of "sim_env\<lparr>migrator_createMigration := always_fails\<rparr>" "''mongodb''" "sim_state [] [] []"]
  by (simp add: sim_state_def)

subsection \<open>Health checks and the existence check\<close>

text \<open>
  C8. For every environment and every state of the registry, also one with a missing
  handle, \<^verbatim>\<open>isPostgresHealthy\<close> and \<^verbatim>\<open>isMongoHealthy\<close> return a boolean and never
  throw: \<open>True\<close> when the probe query succeeded, \<open>False\<close> when the probe threw or the
  handle is missing. \<^verbatim>\<open>fileExists\<close> never throws either: it returns what
  \<^verbatim>\<open>existsSync\<close> returned, and \<open>False\<close> when \<^verbatim>\<open>existsSync\<close> threw.
\<close>

theorem health_and_existence_checks_never_throw:
  "fst (isPostgresHealthy env s) =
     Inr (case postgresEm s of
            None \<Rightarrow> False
          | Some e \<Rightarrow> \<not> isl (fst (em_execute env e ''SELECT 1'' (world s))))
   \<and> fst (isMongoHealthy env s) =
     Inr (case mongoEm s of
            None \<Rightarrow> False
          | Some e \<Rightarrow> \<not> isl (fst (em_execute env e ''ping'' (world s))))
   \<and> fst (fileExists env p s) =
     Inr (case fst (fs_existsSync env p (world s)) of Inl e \<Rightarrow> False | Inr b \<Rightarrow> b)"
  by (simp add: isPostgresHealthy_def isMongoHealthy_def fileExists_def js_simps
      split: option.splits prod.splits sum.splits)

theorem health_and_existence_checks_never_throw_witness:
  "fst (isPostgresHealthy (sim_env\<lparr>em_execute := always_fails\<rparr>) (sim_state [] [] [])) = Inr False
   \<and> fst (isMongoHealthy sim_env (sim_state [] [] [])) = Inr True
   \<and> fst (fileExists (sim_env\<lparr>fs_existsSync := always_fails ()\<rparr>) ''migrations/a.ts''
        (sim_state [] [] [(''migrations/a.ts'', ''x'')])) = Inr False"
  using health_and_existence_checks_never_throw
    [of "sim_env\<lparr>em_execute := always_fails\<rparr>" "sim_state [] [] []"]
    health_and_existence_checks_never_throw [of sim_env "sim_state [] [] []"]
    health_and_existence_checks_never_throw
    [where env = "sim_env\<lparr>fs_existsSync := always_fails ()\<rparr>" and p = "''migrations/a.ts''"
       and s = "sim_state [] [] [(''migrations/a.ts'', ''x'')]"]
  by (simp add: sim_simps)

subsection \<open>Creating a file that exists\<close>

text \<open>
  C9. \<^verbatim>\<open>createFile\<close> with \<^verbatim>\<open>override = false\<close> on a path that exists returns normally
  and writes nothing. The function first makes sure that the parent directory exists and
  then asks \<^verbatim>\<open>existsSync\<close>; the file existing means that the directory creation for
  its parent succeeds and that \<^verbatim>\<open>existsSync\<close> then answers true. Under these two
  facts, for every environment, state and content: the call returns normally, the trace
  gains the directory creation, the existence check and three log lines and no
  \<open>WriteFile\<close> call, and the world is the one the existence check left, so the file's
  content is untouched.
\<close>

theorem createFile_existing_without_override_writes_nothing:
  "mkdirp env (path_dirname env p) (world s) = (Inr (), w') \<Longrightarrow>
   fs_existsSync env p w' = (Inr True, w'') \<Longrightarrow>
   createFile env p content False s =
     (Inr (),
      s\<lparr>world := w'',
        trace := trace s @
          [Call (Mkdirp (path_dirname env p)),
           Logger DEBUG (''directory created: '' @ path_dirname env p) None,
           Call (ExistsSync p),
           Logger DEBUG (''file existence check: '' @ p @ '' - true'') None,
           Logger WARN (''file already exists, creation skipped: '' @ p) None]\<rparr>)"
  by (simp add: createFile_def createDirectories_def fileExists_def js_simps)

theorem createFile_existing_without_override_writes_nothing_witness:
  "fst (createFile sim_env ''migrations/a.ts'' ''new text'' False
          (sim_state [] [] [(''migrations/a.ts'', ''old text'')])) = Inr ()
   \<and> files (world (snd (createFile sim_env ''migrations/a.ts'' ''new text'' False
          (sim_state [] [] [(''migrations/a.ts'', ''old text'')]))))
       = [(''migrations/a.ts'', ''old text'')]"
proof -
  let ?w = "\<lparr>applied = [], waiting = [], files = [(''migrations/a.ts'', ''old text'')]\<rparr>"
  let ?s = "sim_state [] [] [(''migrations/a.ts'', ''old text'')]"
  have dir: "mkdirp sim_env (path_dirname sim_env ''migrations/a.ts'') (world ?s) = (Inr (), ?w)"
    by (simp add: sim_simps)
  have ex: "fs_existsSync sim_env ''migrations/a.ts'' ?w = (Inr True, ?w)"
    by (simp add: sim_simps)
  show ?thesis
    using createFile_existing_without_override_writes_nothing [OF dir ex, of "''new text''"]
    by simp
qed

subsection \<open>Shutdown\<close>

text \<open>
  C7, as amended. \<^verbatim>\<open>onModuleDestroy\<close> never re-raises and always completes: whatever
  the closing of a handle throws is caught and logged with the error. The two handles are
  closed in sequence inside one \<^verbatim>\<open>try\<close> block, PostgreSQL first: the PostgreSQL
  handle's close is always attempted, and the MongoDB handle's close is attempted
  whenever the PostgreSQL handle is missing or its close succeeded.
\<close>

theorem shutdown_catches_and_logs_every_failure:
  "fst (onModuleDestroy env s) = Inr ()
   \<and> (\<forall>pg. postgresEm s = Some pg \<longrightarrow>
         Call (Close pg) \<in> set (trace (snd (onModuleDestroy env s))))
   \<and> (\<forall>pg e. postgresEm s = Some pg \<and> fst (conn_close env pg (world s)) = Inl e \<longrightarrow>
         last (trace (snd (onModuleDestroy env s)))
           = Logger ERROR ''error while closing database connections'' (Some e))
   \<and> (\<forall>m. mongoEm s = Some m
           \<and> (case postgresEm s of
                None \<Rightarrow> True
              | Some pg \<Rightarrow> \<not> isl (fst (conn_close env pg (world s)))) \<longrightarrow>
         Call (Close m) \<in> set (trace (snd (onModuleDestroy env s))))
   \<and> (\<forall>m e. mongoEm s = Some m
           \<and> (case postgresEm s of
                None \<Rightarrow> fst (conn_close env m (world s)) = Inl e
              | Some pg \<Rightarrow>
                  \<not> isl (fst (conn_close env pg (world s)))
                  \<and> fst (conn_close env m (snd (conn_close env pg (world s)))) = Inl e) \<longrightarrow>
         last (trace (snd (onModuleDestroy env s)))
           = Logger ERROR ''error while closing database connections'' (Some e))"
  by (auto simp add: onModuleDestroy_def closeConnections_def js_simps
      split: option.splits prod.splits sum.splits)

theorem shutdown_catches_and_logs_every_failure_witness:
  "fst (onModuleDestroy (sim_env\<lparr>conn_close := always_fails ()\<rparr>) (sim_state [] [] [])) = Inr ()
   \<and> last (trace (snd (onModuleDestroy (sim_env\<lparr>conn_close := always_fails ()\<rparr>)
        (sim_state [] [] []))))
       = Logger ERROR ''error while closing database connections'' (Some (Error ''connection lost''))
   \<and> Call (Close 1) \<in> set (trace (snd (onModuleDestroy sim_env (sim_state [] [] []))))
   \<and> Call (Close 2) \<in> set (trace (snd (onModuleDestroy sim_env (sim_state [] [] []))))
   \<and> fst (onModuleDestroy (sim_env\<lparr>conn_close := fails_for 2\<rparr>) (sim_state [] [] [])) = Inr ()
   \<and> last (trace (snd (onModuleDestroy (sim_env\<lparr>conn_close := fails_for 2\<rparr>)
        (sim_state [] [] []))))
       = Logger ERROR ''error while closing database connections'' (Some (Error ''connection lost''))"
  using shutdown_catches_and_logs_every_failure
    [of "sim_env\<lparr>conn_close := always_fails ()\<rparr>" "sim_state [] [] []"]
    shutdown_catches_and_logs_every_failure [of sim_env "sim_state [] [] []"]
    shutdown_catches_and_logs_every_failure
    [of "sim_env\<lparr>conn_close := fails_for 2\<rparr>" "sim_state [] [] []"]
  by (simp add: sim_simps)

text \<open>
  The claim as stated fails: when closing the PostgreSQL handle throws, the exception
  leaves \<^verbatim>\<open>closeConnections\<close> at once and the MongoDB handle, though present, is never
  closed.
\<close>

theorem shutdown_skips_mongo_after_postgres_failure:
  "fst (conn_close (sim_env\<lparr>conn_close := fails_for 1\<rparr>) 1 (world (sim_state [] [] [])))
     = Inl (Error ''connection lost'')
   \<and> mongoEm (sim_state [] [] []) = Some 2
   \<and> Call (Close 2)
       \<notin> set (trace (snd (onModuleDestroy (sim_env\<lparr>conn_close := fails_for 1\<rparr>)
                 (sim_state [] [] []))))"
  by (simp add: onModuleDestroy_def closeConnections_def js_simps sim_simps)

subsection \<open>Getting a connection\<close>

lemma fst_getPostgresConnection:
  "fst (getPostgresConnection s) =
     (case postgresEm s of
        None \<Rightarrow> Inl (Error ''PostgreSQL connection is not available'')
      | Some h \<Rightarrow> Inr h)"
  by (simp add: getPostgresConnection_def split: option.splits)

lemma fst_getMongoConnection:
  "fst (getMongoConnection s) =
     (case mongoEm s of
        None \<Rightarrow> Inl (Error ''MongoDB connection is not available'')
      | Some h \<Rightarrow> Inr h)"
  by (simp add: getMongoConnection_def split: option.splits)

lemma onModuleInit_handles:
  "postgresEm (snd (onModuleInit env s)) = postgresEm s"
  "mongoEm (snd (onModuleInit env s)) = mongoEm s"
  by (auto simp add: onModuleInit_def initializeConnections_def js_simps
      split: option.splits prod.splits sum.splits)

lemma onModuleDestroy_handles:
  "postgresEm (snd (onModuleDestroy env s)) = postgresEm s"
  "mongoEm (snd (onModuleDestroy env s)) = mongoEm s"
  by (auto simp add: onModuleDestroy_def closeConnections_def js_simps
      split: option.splits prod.splits sum.splits)

text \<open>
  C5, as amended. The two handles are injected at construction and no method assigns
  them. \<^verbatim>\<open>getPostgresConnection\<close> and \<^verbatim>\<open>getMongoConnection\<close> return the injected
  handle whenever it is present and throw \<^verbatim>\<open>Error\<close> (connection not available) exactly
  when it is missing; \<^verbatim>\<open>onModuleInit\<close> and \<^verbatim>\<open>onModuleDestroy\<close> leave both handles
  as they were, whether they succeed or fail, so the answer is the same before
  initialization, after it and after shutdown.
\<close>

theorem getConnection_depends_on_the_injected_handle_only:
  "fst (getPostgresConnection s) =
     (case postgresEm s of
        None \<Rightarrow> Inl (Error ''PostgreSQL connection is not available'')
      | Some h \<Rightarrow> Inr h)
   \<and> fst (getMongoConnection s) =
     (case mongoEm s of
        None \<Rightarrow> Inl (Error ''MongoDB connection is not available'')
      | Some h \<Rightarrow> Inr h)
   \<and> postgresEm (snd (onModuleInit env s)) = postgresEm s
   \<and> mongoEm (snd (onModuleInit env s)) = mongoEm s
   \<and> postgresEm (snd (onModuleDestroy env s)) = postgresEm s
   \<and> mongoEm (snd (onModuleDestroy env s)) = mongoEm s
   \<and> fst (getPostgresConnection (snd (onModuleInit env s))) = fst (getPostgresConnection s)
   \<and> fst (getMongoConnection (snd (onModuleInit env s))) = fst (getMongoConnection s)
   \<and> fst (getPostgresConnection (snd (onModuleDestroy env s))) = fst (getPostgresConnection s)
   \<and> fst (getMongoConnection (snd (onModuleDestroy env s))) = fst (getMongoConnection s)"
  by (simp add: fst_getPostgresConnection fst_getMongoConnection onModuleInit_handles
      onModuleDestroy_handles)

theorem getConnection_depends_on_the_injected_handle_only_witness:
  "fst (getPostgresConnection (snd (onModuleInit sim_env (sim_state [] [] [])))) = Inr 1
   \<and> fst (getMongoConnection (snd (onModuleInit sim_env (sim_state [] [] [])))) = Inr 2"
  using getConnection_depends_on_the_injected_handle_only [of "sim_state [] [] []" sim_env]
  by (simp add: sim_state_def)

text \<open>
  The claim as stated fails: a registry that was never initialized hands out both
  handles, and so does one that was initialized and then shut down.
\<close>

theorem getConnection_before_initialize_and_after_shutdown:
  "trace (sim_state [] [] []) = []
   \<and> fst (getPostgresConnection (sim_state [] [] [])) = Inr 1
   \<and> fst (getMongoConnection (sim_state [] [] [])) = Inr 2
   \<and> fst (onModuleDestroy sim_env (snd (onModuleInit sim_env (sim_state [] [] [])))) = Inr ()
   \<and> fst (getPostgresConnection
        (snd (onModuleDestroy sim_env (snd (onModuleInit sim_env (sim_state [] [] [])))))) = Inr 1
   \<and> fst (getMongoConnection
        (snd (onModuleDestroy sim_env (snd (onModuleInit sim_env (sim_state [] [] [])))))) = Inr 2"
  by (simp add: getPostgresConnection_def getMongoConnection_def onModuleInit_def
      initializeConnections_def onModuleDestroy_def closeConnections_def js_simps sim_simps)

subsection \<open>Running the pending migrations\<close>

text \<open>
  C3, as amended. \<^verbatim>\<open>runMigrations\<close> returns no value (its type is
  \<^verbatim>\<open>Promise<void>\<close>): the number of migrations the migrator's \<^verbatim>\<open>up()\<close> reports is
  written to the log, not returned. When \<^verbatim>\<open>up()\<close> reports none (an empty list or a
  falsy value) the call returns normally and logs that nothing was pending. When resolving
  the connection or \<^verbatim>\<open>up()\<close> throws, the call logs the error and throws that same
  error, unwrapped. The world afterwards is the one \<^verbatim>\<open>up()\<close> left.
\<close>

theorem runMigrations_logs_the_count_and_rethrows:
  "(\<forall>e s'.
      getMikroORM env database
        (s\<lparr>trace := trace s
           @ [Logger LOG (''starting '' @ database @ '' database migrations...'') None]\<rparr>)
        = (Inl e, s') \<longrightarrow>
      fst (runMigrations env database s) = Inl e)
   \<and> (\<forall>orm s' r w.
      getMikroORM env database
        (s\<lparr>trace := trace s
           @ [Logger LOG (''starting '' @ database @ '' database migrations...'') None]\<rparr>)
        = (Inr orm, s')
      \<and> migrator_up env orm (world s') = (r, w) \<longrightarrow>
      fst (runMigrations env database s) = (case r of Inl e \<Rightarrow> Inl e | Inr ms \<Rightarrow> Inr ())
      \<and> world (snd (runMigrations env database s)) = w
      \<and> (\<forall>ms. r = Inr (Some ms) \<and> ms \<noteq> [] \<longrightarrow>
            last (trace (snd (runMigrations env database s)))
              = Logger LOG
                  (database @ '' database migrations finished, '' @ toString10 (length ms)
                     @ '' migrations executed'') None)
      \<and> (r = Inr None \<or> r = Inr (Some []) \<longrightarrow>
            last (trace (snd (runMigrations env database s)))
              = Logger LOG (database @ '' database has no pending migrations'') None)
      \<and> (\<forall>e. r = Inl e \<longrightarrow>
            last (trace (snd (runMigrations env database s)))
              = Logger ERROR (database @ '' database migration failed'') (Some e)))"
  by (auto simp add: runMigrations_def js_simps forEach_emit
      split: option.splits sum.splits list.splits)

theorem runMigrations_logs_the_count_and_rethrows_witness:
  "last (trace (snd (runMigrations sim_env ''postgresql''
        (sim_state [] [''1700000000001-A'', ''1700000000002-B''] []))))
       = Logger LOG ''postgresql database migrations finished, 2 migrations executed'' None
   \<and> fst (runMigrations sim_env ''postgresql'' (sim_state [] [] [])) = Inr ()
   \<and> last (trace (snd (runMigrations sim_env ''postgresql'' (sim_state [] [] []))))
       = Logger LOG ''postgresql database has no pending migrations'' None
   \<and> fst (runMigrations (sim_env\<lparr>migrator_up := always_fails ()\<rparr>) ''mongodb''
        (sim_state [] [''1700000000001-A''] [])) = Inl (Error ''connection lost'')"
proof -
  let ?s = "sim_state [] [] []"
  let ?t = "sim_state [] [''1700000000001-A''] []"
  let ?f = "sim_env\<lparr>migrator_up := always_fails ()\<rparr>"
  have 1: "getMikroORM sim_env ''postgresql''
      (?s\<lparr>trace := trace ?s
         @ [Logger LOG (''starting '' @ ''postgresql'' @ '' database migrations...'') None]\<rparr>)
      = (Inr 1, ?s\<lparr>trace :=
           [Logger LOG ''starting postgresql database migrations...'' None, Call (GetKnex 1)]\<rparr>)
     \<and> migrator_up sim_env 1 (world ?s) = (Inr (Some []), world ?s)"
    by (simp add: getMikroORM_def getPostgresConnection_def js_simps sim_simps)
  have 2: "getMikroORM ?f ''mongodb''
      (?t\<lparr>trace := trace ?t
         @ [Logger LOG (''starting '' @ ''mongodb'' @ '' database migrations...'') None]\<rparr>)
      = (Inr 2, ?t\<lparr>trace :=
           [Logger LOG ''starting mongodb database migrations...'' None, Call (GetKnex 2)]\<rparr>)
     \<and> migrator_up ?f 2 (world ?t) = (Inl (Error ''connection lost''), world ?t)"
    by (simp add: getMikroORM_def getMongoConnection_def js_simps sim_simps)
  let ?u = "sim_state [] [''1700000000001-A'', ''1700000000002-B''] []"
  have 3: "getMikroORM sim_env ''postgresql''
      (?u\<lparr>trace := trace ?u
         @ [Logger LOG (''starting '' @ ''postgresql'' @ '' database migrations...'') None]\<rparr>)
      = (Inr 1, ?u\<lparr>trace :=
           [Logger LOG ''starting postgresql database migrations...'' None, Call (GetKnex 1)]\<rparr>)
     \<and> migrator_up sim_env 1 (world ?u)
      = (Inr (Some [''1700000000001-A'', ''1700000000002-B'']),
         \<lparr>applied = [''1700000000001-A'', ''1700000000002-B''], waiting = [], files = []\<rparr>)"
    by (simp add: getMikroORM_def getPostgresConnection_def js_simps sim_simps)
  have two: "toString10 2 = ''2''" "toString10 (Suc (Suc 0)) = ''2''"
    by (simp_all add: toString10.simps digit_char_def char_of_def bit_0)
  from 1 have a: "fst (runMigrations sim_env ''postgresql'' ?s) = Inr ()
      \<and> last (trace (snd (runMigrations sim_env ''postgresql'' ?s)))
          = Logger LOG ''postgresql database has no pending migrations'' None"
    using runMigrations_logs_the_count_and_rethrows [of sim_env "''postgresql''" ?s]
    by (auto simp add: sim_state_def)
  from 2 have b: "fst (runMigrations ?f ''mongodb'' ?t) = Inl (Error ''connection lost'')"
    using runMigrations_logs_the_count_and_rethrows [of ?f "''mongodb''" ?t]
    by (auto simp add: sim_state_def)
  from 3 have c: "last (trace (snd (runMigrations sim_env ''postgresql'' ?u)))
      = Logger LOG ''postgresql database migrations finished, 2 migrations executed'' None"
    using runMigrations_logs_the_count_and_rethrows [of sim_env "''postgresql''" ?u]
    by (auto simp add: sim_state_def two)
  from a b c show ?thesis
    by simp
qed

text \<open>
  The claim as stated fails: a run that applied two migrations and a run that had none to
  apply return the same value, so the value returned cannot report the count; and the
  error of a failed run is the collaborator's own error, not a wrapper around it.
\<close>

theorem runMigrations_returns_no_count:
  "fst (migrator_up sim_env 1 (world (sim_state [] [''1700000000001-A'', ''1700000000002-B''] [])))
     = Inr (Some [''1700000000001-A'', ''1700000000002-B''])
   \<and> fst (migrator_up sim_env 1 (world (sim_state [] [] []))) = Inr (Some [])
   \<and> fst (runMigrations sim_env ''postgresql''
        (sim_state [] [''1700000000001-A'', ''1700000000002-B''] []))
     = fst (runMigrations sim_env ''postgresql'' (sim_state [] [] []))
   \<and> fst (migrator_up (sim_env\<lparr>migrator_up := always_fails ()\<rparr>) 1
        (world (sim_state [] [''1700000000001-A''] []))) = Inl (Error ''connection lost'')
   \<and> fst (runMigrations (sim_env\<lparr>migrator_up := always_fails ()\<rparr>) ''postgresql''
        (sim_state [] [''1700000000001-A''] [])) = Inl (Error ''connection lost'')"
  by (simp add: runMigrations_def getMikroORM_def getPostgresConnection_def js_simps sim_simps)

subsection \<open>Reverting the last migration\<close>

text \<open>
  C6, as amended. \<^verbatim>\<open>revertLastMigration\<close> hands the work to the migrator's
  \<^verbatim>\<open>down()\<close> and has no check of its own that an executed migration exists: when the
  connection resolves, its outcome is exactly the outcome of \<^verbatim>\<open>down()\<close> (normal return
  for normal return, the same error for an error) and the world afterwards is the one
  \<^verbatim>\<open>down()\<close> left; when resolving the connection throws, it throws that error. Which
  migration is reverted is the migrator's decision.
\<close>

theorem revertLastMigration_outcome_is_that_of_down:
  "(\<forall>e s'.
      getMikroORM env database
        (s\<lparr>trace := trace s
           @ [Logger LOG
                (''starting rollback of the last '' @ database @ '' database migration...'')
                None]\<rparr>)
        = (Inl e, s') \<longrightarrow>
      fst (revertLastMigration env database s) = Inl e)
   \<and> (\<forall>orm s' r w.
      getMikroORM env database
        (s\<lparr>trace := trace s
           @ [Logger LOG
                (''starting rollback of the last '' @ database @ '' database migration...'')
                None]\<rparr>)
        = (Inr orm, s')
      \<and> migrator_down env orm (world s') = (r, w) \<longrightarrow>
      fst (revertLastMigration env database s) = r
      \<and> world (snd (revertLastMigration env database s)) = w
      \<and> [c \<leftarrow> trace (snd (revertLastMigration env database s)). \<exists>x. c = Call x]
          = [c \<leftarrow> trace s'. \<exists>x. c = Call x] @ [Call (MigratorDown orm)])"
  by (auto simp add: revertLastMigration_def js_simps split: option.splits sum.splits)

theorem revertLastMigration_outcome_is_that_of_down_witness:
  "fst (revertLastMigration (sim_env\<lparr>migrator_down := always_fails ()\<rparr>) ''postgresql''
          (sim_state [''1700000000001-A''] [] [])) = Inl (Error ''connection lost'')
   \<and> fst (revertLastMigration sim_env ''postgresql'' (sim_state [''1700000000001-A''] [] [])) = Inr ()
   \<and> applied (world (snd (revertLastMigration sim_env ''postgresql''
        (sim_state [''1700000000001-A''] [] [])))) = []"
proof -
  let ?s = "sim_state [''1700000000001-A''] [] []"
  have "getMikroORM sim_env ''postgresql''
      (?s\<lparr>trace := trace ?s
         @ [Logger LOG
              (''starting rollback of the last '' @ ''postgresql'' @ '' database migration...'')
              None]\<rparr>)
      = (Inr 1, ?s\<lparr>trace :=
           [Logger LOG ''starting rollback of the last postgresql database migration...'' None,
            Call (GetKnex 1)]\<rparr>)
     \<and> migrator_down sim_env 1 (world ?s)
      = (Inr (), \<lparr>applied = [], waiting = [''1700000000001-A''], files = []\<rparr>)"
    by (simp add: getMikroORM_def getPostgresConnection_def js_simps sim_simps)
  moreover have "getMikroORM (sim_env\<lparr>migrator_down := always_fails ()\<rparr>) ''postgresql''
      (?s\<lparr>trace := trace ?s
         @ [Logger LOG
              (''starting rollback of the last '' @ ''postgresql'' @ '' database migration...'')
              None]\<rparr>)
      = (Inr 1, ?s\<lparr>trace :=
           [Logger LOG ''starting rollback of the last postgresql database migration...'' None,
            Call (GetKnex 1)]\<rparr>)
     \<and> migrator_down (sim_env\<lparr>migrator_down := always_fails ()\<rparr>) 1 (world ?s)
      = (Inl (Error ''connection lost''), world ?s)"
    by (simp add: getMikroORM_def getPostgresConnection_def js_simps sim_simps)
  ultimately show ?thesis
    using revertLastMigration_outcome_is_that_of_down [of sim_env "''postgresql''" ?s]
      revertLastMigration_outcome_is_that_of_down
      [of "sim_env\<lparr>migrator_down := always_fails ()\<rparr>" "''postgresql''" ?s]
    by (auto simp add: sim_state_def)
qed

text \<open>
  The claim as stated fails where the migrator's \<^verbatim>\<open>down()\<close> returns normally with
  nothing to revert: no migration was ever executed, and \<^verbatim>\<open>revertLastMigration\<close>
  returns normally and reports success.
\<close>

theorem revertLastMigration_with_nothing_executed:
  "applied (world (sim_state [] [''1700000000001-A''] [])) = []
   \<and> fst (revertLastMigration sim_env ''mongodb'' (sim_state [] [''1700000000001-A''] [])) = Inr ()
   \<and> last (trace (snd (revertLastMigration sim_env ''mongodb''
        (sim_state [] [''1700000000001-A''] []))))
       = Logger LOG ''mongodb database migration rollback finished'' None"
  by (simp add: revertLastMigration_def getMikroORM_def getMongoConnection_def js_simps sim_simps)

subsection \<open>Migration file names\<close>

text \<open>
  The classes of the two patterns are the digits and the letters of the specification.
\<close>

lemma in_digit: "in_class [(CHR ''0'', CHR ''9'')] c = is_digit c"
proof
  assume "in_class [(CHR ''0'', CHR ''9'')] c"
  then have "(of_char c :: nat) \<in> set [48..<Suc 57]"
    by (simp add: in_class_def) arith
  then have "char_of (of_char c :: nat) \<in> char_of ` set [48..<Suc 57 :: nat]" by blast
  then have "c \<in> char_of ` set [48..<Suc 57 :: nat]" by (simp only: char_of_char)
  then show "is_digit c" unfolding is_digit_def
    by (simp add: upt_rec char_of_def bit_0)
next
  assume "is_digit c" then show "in_class [(CHR ''0'', CHR ''9'')] c"
    by (auto simp add: is_digit_def in_class_def)
qed

lemma in_letter: "in_class [(CHR ''a'', CHR ''z''), (CHR ''A'', CHR ''Z'')] c = is_letter c"
proof
  assume "in_class [(CHR ''a'', CHR ''z''), (CHR ''A'', CHR ''Z'')] c"
  then have "(of_char c :: nat) \<in> set [97..<Suc 122] \<or> (of_char c :: nat) \<in> set [65..<Suc 90]"
    by (simp add: in_class_def) arith
  then have "char_of (of_char c :: nat) \<in> char_of ` set [97..<Suc 122 :: nat] \<or>
    char_of (of_char c :: nat) \<in> char_of ` set [65..<Suc 90 :: nat]" by blast
  then have "c \<in> char_of ` set [97..<Suc 122 :: nat] \<or> c \<in> char_of ` set [65..<Suc 90 :: nat]"
    by (simp only: char_of_char)
  then show "is_letter c" unfolding is_letter_def
    by (simp add: upt_rec char_of_def bit_0)
next
  assume "is_letter c" then show "in_class [(CHR ''a'', CHR ''z''), (CHR ''A'', CHR ''Z'')] c"
    by (auto simp add: is_letter_def in_class_def)
qed

lemma in_class_append: "in_class (rs @ rs') c = (in_class rs c \<or> in_class rs' c)"
  by (simp add: in_class_def)

lemma in_alnum:
  "in_class [(CHR ''a'', CHR ''z''), (CHR ''A'', CHR ''Z''), (CHR ''0'', CHR ''9'')] c
     = (is_letter c \<or> is_digit c)"
  using in_class_append [of "[(CHR ''a'', CHR ''z''), (CHR ''A'', CHR ''Z'')]" "[(CHR ''0'', CHR ''9'')]" c]
  by (simp add: in_letter in_digit)

text \<open>
  The states a pattern can reach from a state, one lemma for each form of pattern that
  occurs in the two literals.
\<close>

lemma mem_Bol: "x \<in> set (rmatch Bol st) \<longleftrightarrow> fst st = 0 \<and> x = st"
  by auto

lemma mem_Eol: "x \<in> set (rmatch Eol (i, r, c)) \<longleftrightarrow> r = [] \<and> x = (i, r, c)"
  by auto

lemma mem_Chr: "x \<in> set (rmatch (Chr a) (i, r, c)) \<longleftrightarrow> (\<exists>r'. r = a # r' \<and> x = (Suc i, r', c))"
  by (auto split: list.splits)

lemma mem_OneOf:
  "x \<in> set (rmatch (OneOf rs) (i, r, c)) \<longleftrightarrow> (\<exists>y r'. r = y # r' \<and> in_class rs y \<and> x = (Suc i, r', c))"
  by (auto split: list.splits)

lemma mem_Seq: "x \<in> set (rmatch (Seq a b) st) \<longleftrightarrow> (\<exists>st'\<in>set (rmatch a st). x \<in> set (rmatch b st'))"
  by auto

lemma mem_Alt: "x \<in> set (rmatch (Alt a b) st) \<longleftrightarrow> x \<in> set (rmatch a st) \<or> x \<in> set (rmatch b st)"
  by auto

lemma mem_Group:
  "x \<in> set (rmatch (Group k a) (i, r, c)) \<longleftrightarrow>
     (\<exists>i' r' c'. (i', r', c') \<in> set (rmatch a (i, r, c)) \<and> x = (i', r', c'(k \<mapsto> take (i' - i) r)))"
  by (auto simp add: image_iff) force

lemma mem_repeat_class:
  "x \<in> set (repeat_iter n (rmatch (OneOf rs)) (i, r, c)) \<longleftrightarrow>
     (\<exists>w r'. r = w @ r' \<and> length w = n \<and> (\<forall>y\<in>set w. in_class rs y) \<and> x = (i + n, r', c))"
proof (induction n arbitrary: i r c)
  case 0
  show ?case by auto
next
  case (Suc n)
  show ?case
  proof (cases r)
    case Nil
    then show ?thesis by simp
  next
    case (Cons y ys)
    show ?thesis
    proof (cases "in_class rs y")
      case True
      with Cons Suc.IH [of "Suc i" ys c] show ?thesis
        by (auto simp add: length_Suc_conv Cons_eq_append_conv)
    next
      case False
      with Cons show ?thesis
        by (auto simp add: length_Suc_conv Cons_eq_append_conv)
    qed
  qed
qed

lemma mem_star_class:
  "length r \<le> m \<Longrightarrow>
   x \<in> set (star_iter m (rmatch (OneOf rs)) (i, r, c)) \<longleftrightarrow>
     (\<exists>w r'. r = w @ r' \<and> (\<forall>y\<in>set w. in_class rs y) \<and> x = (i + length w, r', c))"
proof (induction m arbitrary: i r c)
  case 0
  then show ?case by auto
next
  case (Suc m)
  show ?case
  proof (cases r)
    case Nil
    then show ?thesis by auto
  next
    case (Cons y ys)
    show ?thesis
    proof (cases "in_class rs y")
      case True
      from Suc.prems Cons have "length ys \<le> m" by simp
      from Suc.IH [OF this, of "Suc i" c] Cons True show ?thesis
        by (auto simp add: Cons_eq_append_conv)
    next
      case False
      with Cons show ?thesis
        by (auto simp add: Cons_eq_append_conv)
    qed
  qed
qed

lemma mem_Repeat_class:
  "x \<in> set (rmatch (Repeat n (OneOf rs)) (i, r, c)) \<longleftrightarrow>
     (\<exists>w r'. r = w @ r' \<and> length w = n \<and> (\<forall>y\<in>set w. in_class rs y) \<and> x = (i + n, r', c))"
  by (simp add: mem_repeat_class)

lemma mem_Star_class:
  "x \<in> set (rmatch (Star (OneOf rs)) (i, r, c)) \<longleftrightarrow>
     (\<exists>w r'. r = w @ r' \<and> (\<forall>y\<in>set w. in_class rs y) \<and> x = (i + length w, r', c))"
  by (simp add: mem_star_class)

lemmas mem_simps = mem_Bol mem_Eol mem_Chr mem_OneOf mem_Seq mem_Alt mem_Group mem_Repeat_class
  mem_Star_class

lemma Bex_triple: "(\<exists>st\<in>A. P st) \<longleftrightarrow> (\<exists>i r c. (i, r, c) \<in> A \<and> P (i, r, c))"
  by auto

text \<open>
  Soundness: whatever the two patterns match from the start of a string decomposes as
  the grammar says. Completeness: a string that decomposes so is matched to its end.
\<close>

lemma parse_pattern_sound:
  "x \<in> set (rmatch parse_pattern (0, s, c)) \<Longrightarrow>
     \<exists>ds n ns ext. s = ds @ ''-'' @ (n # ns) @ ''.'' @ ext \<and> length ds = 13
       \<and> (\<forall>y\<in>set ds. is_digit y) \<and> is_letter n \<and> (\<forall>y\<in>set ns. is_letter y \<or> is_digit y)
       \<and> (ext = ''ts'' \<or> ext = ''js'') \<and> x = (length s, [], c(1 \<mapsto> ds, 2 \<mapsto> n # ns, 3 \<mapsto> ext))"
  apply (simp add: parse_pattern_def digit_def letter_def alnum_def ts_or_js_def Bex_triple
      mem_simps in_digit in_letter in_alnum del: rmatch.simps)
  apply clarsimp
  apply (elim disjE; clarsimp)
   apply (intro exI conjI, rule refl, (assumption | simp)+)
  apply (intro exI conjI, rule refl, (assumption | simp)+)
  done

lemma validate_pattern_sound:
  "x \<in> set (rmatch validate_pattern (0, s, c)) \<Longrightarrow>
     \<exists>ds n ns ext. s = ds @ ''-'' @ (n # ns) @ ''.'' @ ext \<and> length ds = 13
       \<and> (\<forall>y\<in>set ds. is_digit y) \<and> is_letter n \<and> (\<forall>y\<in>set ns. is_letter y \<or> is_digit y)
       \<and> (ext = ''ts'' \<or> ext = ''js'')"
  apply (simp add: validate_pattern_def digit_def letter_def alnum_def ts_or_js_def Bex_triple
      mem_simps in_digit in_letter in_alnum del: rmatch.simps)
  apply clarsimp
  apply (elim disjE; clarsimp)
   apply (intro exI conjI, rule refl, (assumption | simp)+)
  apply (intro exI conjI, rule refl, (assumption | simp)+)
  done

lemma mem_SeqI:
  "st' \<in> set (rmatch a st) \<Longrightarrow> x \<in> set (rmatch b st') \<Longrightarrow> x \<in> set (rmatch (Seq a b) st)"
  by auto

lemma tail_matches:
  assumes "ext = ''ts'' \<or> ext = ''js''"
  shows "(i + 3, [], c(k \<mapsto> ext))
           \<in> set (rmatch (Seq (Chr CHR ''.'') (Seq (Group k ts_or_js) Eol)) (i, ''.'' @ ext, c))"
proof -
  have 1: "(Suc i, ext, c) \<in> set (rmatch (Chr CHR ''.'') (i, ''.'' @ ext, c))"
    by (simp add: mem_Chr del: rmatch.simps)
  have 2: "(i + 3, [], c(k \<mapsto> ext)) \<in> set (rmatch (Group k ts_or_js) (Suc i, ext, c))"
    using assms by (auto simp add: ts_or_js_def)
  have 3: "(i + 3, [], c(k \<mapsto> ext)) \<in> set (rmatch Eol (i + 3, [], c(k \<mapsto> ext)))"
    by simp
  show ?thesis
    by (rule mem_SeqI [OF 1]) (rule mem_SeqI [OF 2 3])
qed

lemma name_matches:
  assumes "is_letter n" and "\<forall>y\<in>set ns. is_letter y \<or> is_digit y"
  shows "(Suc i + length ns, r, c) \<in> set (rmatch (Seq letter (Star alnum)) (i, (n # ns) @ r, c))"
proof -
  have 1: "(Suc i, ns @ r, c) \<in> set (rmatch letter (i, (n # ns) @ r, c))"
    using assms(1) by (simp add: letter_def mem_OneOf in_letter del: rmatch.simps)
  have 2: "(Suc i + length ns, r, c) \<in> set (rmatch (Star alnum) (Suc i, ns @ r, c))"
    unfolding alnum_def mem_Star_class using assms(2) by (auto simp add: in_alnum)
  show ?thesis
    by (rule mem_SeqI [OF 1 2])
qed

lemma digits_match:
  assumes "length ds = 13" and "\<forall>y\<in>set ds. is_digit y"
  shows "(i + 13, r, c) \<in> set (rmatch (Repeat 13 digit) (i, ds @ r, c))"
  unfolding digit_def mem_Repeat_class using assms by (auto simp add: in_digit)

lemma parse_pattern_complete:
  assumes "length ds = 13" and "\<forall>y\<in>set ds. is_digit y" and "is_letter n"
    and "\<forall>y\<in>set ns. is_letter y \<or> is_digit y" and "ext = ''ts'' \<or> ext = ''js''"
  shows "(length (ds @ ''-'' @ (n # ns) @ ''.'' @ ext), [], c(1 \<mapsto> ds, 2 \<mapsto> n # ns, 3 \<mapsto> ext))
           \<in> set (rmatch parse_pattern (0, ds @ ''-'' @ (n # ns) @ ''.'' @ ext, c))"
proof -
  let ?s = "ds @ ''-'' @ (n # ns) @ ''.'' @ ext"
  let ?c1 = "c(1 \<mapsto> ds)"
  let ?c2 = "?c1(2 \<mapsto> n # ns)"
  have 0: "(0, ?s, c) \<in> set (rmatch Bol (0, ?s, c))"
    by simp
  have "(0 + 13, ''-'' @ (n # ns) @ ''.'' @ ext, c)
          \<in> set (rmatch (Repeat 13 digit) (0, ds @ (''-'' @ (n # ns) @ ''.'' @ ext), c))"
    using assms(1,2) by (rule digits_match)
  then have 1: "(13, ''-'' @ (n # ns) @ ''.'' @ ext, ?c1)
          \<in> set (rmatch (Group 1 (Repeat 13 digit)) (0, ?s, c))"
    unfolding mem_Group using assms(1) by force
  have 2: "(14, (n # ns) @ ''.'' @ ext, ?c1)
          \<in> set (rmatch (Chr CHR ''-'') (13, ''-'' @ (n # ns) @ ''.'' @ ext, ?c1))"
    by (simp add: mem_Chr del: rmatch.simps)
  have "(Suc 14 + length ns, ''.'' @ ext, ?c1)
          \<in> set (rmatch (Seq letter (Star alnum)) (14, (n # ns) @ ''.'' @ ext, ?c1))"
    using assms(3,4) by (rule name_matches)
  then have 3: "(15 + length ns, ''.'' @ ext, ?c2)
          \<in> set (rmatch (Group 2 (Seq letter (Star alnum))) (14, (n # ns) @ ''.'' @ ext, ?c1))"
    unfolding mem_Group by force
  have tail: "(15 + length ns + 3, [], ?c2(3 \<mapsto> ext))
          \<in> set (rmatch (Seq (Chr CHR ''.'') (Seq (Group 3 ts_or_js) Eol))
                (15 + length ns, ''.'' @ ext, ?c2))"
    using assms(5) by (rule tail_matches)
  have len: "length ?s = 15 + length ns + 3"
    using assms(1,5) by auto
  have 4: "(length ?s, [], ?c2(3 \<mapsto> ext))
          \<in> set (rmatch (Seq (Chr CHR ''.'') (Seq (Group 3 ts_or_js) Eol))
                (15 + length ns, ''.'' @ ext, ?c2))"
    unfolding len by (rule tail)
  show ?thesis
    unfolding parse_pattern_def
    by (rule mem_SeqI [OF 0], rule mem_SeqI [OF 1], rule mem_SeqI [OF 2], rule mem_SeqI [OF 3 4])
qed

lemma validate_pattern_complete:
  assumes "length ds = 13" and "\<forall>y\<in>set ds. is_digit y" and "is_letter n"
    and "\<forall>y\<in>set ns. is_letter y \<or> is_digit y" and "ext = ''ts'' \<or> ext = ''js''"
  shows "(length (ds @ ''-'' @ (n # ns) @ ''.'' @ ext), [], c(1 \<mapsto> ext))
           \<in> set (rmatch validate_pattern (0, ds @ ''-'' @ (n # ns) @ ''.'' @ ext, c))"
proof -
  let ?s = "ds @ ''-'' @ (n # ns) @ ''.'' @ ext"
  have 0: "(0, ?s, c) \<in> set (rmatch Bol (0, ?s, c))"
    by simp
  have "(0 + 13, ''-'' @ (n # ns) @ ''.'' @ ext, c)
          \<in> set (rmatch (Repeat 13 digit) (0, ds @ (''-'' @ (n # ns) @ ''.'' @ ext), c))"
    using assms(1,2) by (rule digits_match)
  then have 1: "(13, ''-'' @ (n # ns) @ ''.'' @ ext, c) \<in> set (rmatch (Repeat 13 digit) (0, ?s, c))"
    by simp
  have 2: "(14, (n # ns) @ ''.'' @ ext, c)
          \<in> set (rmatch (Chr CHR ''-'') (13, ''-'' @ (n # ns) @ ''.'' @ ext, c))"
    by (simp add: mem_Chr del: rmatch.simps)
  have 3: "(Suc 14, ns @ ''.'' @ ext, c) \<in> set (rmatch letter (14, (n # ns) @ ''.'' @ ext, c))"
    using assms(3) by (simp add: letter_def mem_OneOf in_letter del: rmatch.simps)
  have 4: "(Suc 14 + length ns, ''.'' @ ext, c) \<in> set (rmatch (Star alnum) (Suc 14, ns @ ''.'' @ ext, c))"
    unfolding alnum_def mem_Star_class using assms(4) by (auto simp add: in_alnum)
  have tail: "(Suc 14 + length ns + 3, [], c(1 \<mapsto> ext))
          \<in> set (rmatch (Seq (Chr CHR ''.'') (Seq (Group 1 ts_or_js) Eol))
                (Suc 14 + length ns, ''.'' @ ext, c))"
    using assms(5) by (rule tail_matches)
  have len: "length ?s = Suc 14 + length ns + 3"
    using assms(1,5) by auto
  have 5: "(length ?s, [], c(1 \<mapsto> ext))
          \<in> set (rmatch (Seq (Chr CHR ''.'') (Seq (Group 1 ts_or_js) Eol))
                (Suc 14 + length ns, ''.'' @ ext, c))"
    unfolding len by (rule tail)
  show ?thesis
    unfolding validate_pattern_def
    by (rule mem_SeqI [OF 0], rule mem_SeqI [OF 1], rule mem_SeqI [OF 2], rule mem_SeqI [OF 3],
        rule mem_SeqI [OF 4 5])
qed

text \<open>
  A file name has one decomposition only, so the first match is the only one, and the
  search for a match never goes beyond position 0, where \<^verbatim>\<open>^\<close> holds.
\<close>

lemma not_letter_dot: "\<not> is_letter CHR ''.''" "\<not> is_digit CHR ''.''"
  by (simp_all add: is_letter_def is_digit_def)

lemma split_at_first:
  "c \<notin> set xs \<Longrightarrow> c \<notin> set ys \<Longrightarrow> xs @ c # u = ys @ c # v \<Longrightarrow> xs = ys \<and> u = v"
proof (induction xs arbitrary: ys)
  case Nil
  then show ?case by (cases ys) auto
next
  case (Cons a xs)
  then show ?case by (cases ys) auto
qed

lemma split_unique:
  assumes "ds @ ''-'' @ nm @ ''.'' @ ext = ds' @ ''-'' @ nm' @ ''.'' @ ext'"
    and "length ds = length ds'" and "CHR ''.'' \<notin> set nm" and "CHR ''.'' \<notin> set nm'"
  shows "ds = ds' \<and> nm = nm' \<and> ext = ext'"
proof -
  from assms(1,2) have 1: "ds = ds'" and 2: "nm @ CHR ''.'' # ext = nm' @ CHR ''.'' # ext'"
    by simp_all
  from assms(3,4) 2 have "nm = nm' \<and> ext = ext'"
    by (rule split_at_first)
  with 1 show ?thesis by simp
qed

lemma name_has_no_dot:
  "is_letter n \<Longrightarrow> \<forall>y\<in>set ns. is_letter y \<or> is_digit y \<Longrightarrow> CHR ''.'' \<notin> set (n # ns)"
  using not_letter_dot by auto

lemma exec_from_Bol: "0 < i \<Longrightarrow> exec_from (Seq Bol r) i s = None"
  by (induction s arbitrary: i) (simp_all add: exec_from.simps)

lemma exec_from_anchored:
  "exec_from (Seq Bol r) 0 s =
     (case rmatch (Seq Bol r) (0, s, Map.empty) of [] \<Rightarrow> None | st # _ \<Rightarrow> Some st)"
  by (cases s) (simp_all add: exec_from.simps [of _ 0] exec_from_Bol split: list.splits)

lemma parse_pattern_exec:
  assumes "length ds = 13" and "\<forall>y\<in>set ds. is_digit y" and "is_letter n"
    and "\<forall>y\<in>set ns. is_letter y \<or> is_digit y" and "ext = ''ts'' \<or> ext = ''js''"
  shows "exec_from parse_pattern 0 (ds @ ''-'' @ (n # ns) @ ''.'' @ ext)
           = Some (length (ds @ ''-'' @ (n # ns) @ ''.'' @ ext), [],
                   [1 \<mapsto> ds, 2 \<mapsto> n # ns, 3 \<mapsto> ext])"
proof -
  let ?s = "ds @ ''-'' @ (n # ns) @ ''.'' @ ext"
  let ?L = "rmatch parse_pattern (0, ?s, Map.empty)"
  have "(length ?s, [], [1 \<mapsto> ds, 2 \<mapsto> n # ns, 3 \<mapsto> ext]) \<in> set ?L"
    using assms by (rule parse_pattern_complete)
  then obtain y ys where L: "?L = y # ys"
    by (cases ?L) auto
  then have "y \<in> set ?L" by simp
  from parse_pattern_sound [OF this]
  obtain ds' n' ns' ext' where s: "?s = ds' @ ''-'' @ (n' # ns') @ ''.'' @ ext'"
    and d: "length ds' = 13" and n: "is_letter n'" "\<forall>y\<in>set ns'. is_letter y \<or> is_digit y"
    and y: "y = (length ?s, [], [1 \<mapsto> ds', 2 \<mapsto> n' # ns', 3 \<mapsto> ext'])"
    by blast
  have "ds = ds' \<and> n # ns = n' # ns' \<and> ext = ext'"
    using s assms(1) d name_has_no_dot [OF assms(3,4)] name_has_no_dot [OF n]
    by (intro split_unique) simp_all
  with y have "y = (length ?s, [], [1 \<mapsto> ds, 2 \<mapsto> n # ns, 3 \<mapsto> ext])"
    by simp
  with L show ?thesis
    unfolding parse_pattern_def exec_from_anchored by (simp del: rmatch.simps add: parse_pattern_def [symmetric])
qed

lemma exec_from_parse_pattern:
  "exec_from parse_pattern 0 s =
     (case rmatch parse_pattern (0, s, Map.empty) of [] \<Rightarrow> None | st # _ \<Rightarrow> Some st)"
  unfolding parse_pattern_def by (rule exec_from_anchored)

lemma exec_from_validate_pattern:
  "exec_from validate_pattern 0 s =
     (case rmatch validate_pattern (0, s, Map.empty) of [] \<Rightarrow> None | st # _ \<Rightarrow> Some st)"
  unfolding validate_pattern_def by (rule exec_from_anchored)

lemma toString10_not_Nil: "toString10 n \<noteq> []"
  by (subst toString10.simps) simp

lemma grammar_iff:
  "s \<in> spec_migration_file_names \<longleftrightarrow>
     (\<exists>ds n ns ext. s = ds @ ''-'' @ (n # ns) @ ''.'' @ ext \<and> length ds = 13
        \<and> (\<forall>y\<in>set ds. is_digit y) \<and> is_letter n \<and> (\<forall>y\<in>set ns. is_letter y \<or> is_digit y)
        \<and> (ext = ''ts'' \<or> ext = ''js''))"
proof
  assume "s \<in> spec_migration_file_names"
  then obtain ds nm ext where s: "s = ds @ ''-'' @ nm @ ''.'' @ ext" and "length ds = 13"
    "\<forall>d\<in>set ds. is_digit d" "nm \<noteq> []" "is_letter (hd nm)"
    "\<forall>x\<in>set (tl nm). is_letter x \<or> is_digit x" "ext = ''ts'' \<or> ext = ''js''"
    unfolding spec_migration_file_names_def by blast
  moreover from \<open>nm \<noteq> []\<close> obtain n ns where "nm = n # ns" by (cases nm) auto
  ultimately show "\<exists>ds n ns ext. s = ds @ ''-'' @ (n # ns) @ ''.'' @ ext \<and> length ds = 13
        \<and> (\<forall>y\<in>set ds. is_digit y) \<and> is_letter n \<and> (\<forall>y\<in>set ns. is_letter y \<or> is_digit y)
        \<and> (ext = ''ts'' \<or> ext = ''js'')"
    by auto
next
  assume "\<exists>ds n ns ext. s = ds @ ''-'' @ (n # ns) @ ''.'' @ ext \<and> length ds = 13
        \<and> (\<forall>y\<in>set ds. is_digit y) \<and> is_letter n \<and> (\<forall>y\<in>set ns. is_letter y \<or> is_digit y)
        \<and> (ext = ''ts'' \<or> ext = ''js'')"
  then obtain ds n ns ext where "s = ds @ ''-'' @ (n # ns) @ ''.'' @ ext" "length ds = 13"
    "\<forall>y\<in>set ds. is_digit y" "is_letter n" "\<forall>y\<in>set ns. is_letter y \<or> is_digit y"
    "ext = ''ts'' \<or> ext = ''js''"
    by blast
  then show "s \<in> spec_migration_file_names"
    unfolding spec_migration_file_names_def
    by (intro CollectI exI [of _ ds] exI [of _ "n # ns"] exI [of _ ext]) simp
qed

lemma validate_iff: "validateMigrationFileName s \<longleftrightarrow> s \<in> spec_migration_file_names"
proof
  assume "validateMigrationFileName s"
  then obtain y ys where "rmatch validate_pattern (0, s, Map.empty) = y # ys"
    unfolding validateMigrationFileName_def regex_test_def exec_from_validate_pattern
    by (auto split: list.splits)
  then have "y \<in> set (rmatch validate_pattern (0, s, Map.empty))" by simp
  from validate_pattern_sound [OF this] show "s \<in> spec_migration_file_names"
    unfolding grammar_iff by blast
next
  assume "s \<in> spec_migration_file_names"
  then obtain ds n ns ext where s: "s = ds @ ''-'' @ (n # ns) @ ''.'' @ ext" and *: "length ds = 13"
    "\<forall>y\<in>set ds. is_digit y" "is_letter n" "\<forall>y\<in>set ns. is_letter y \<or> is_digit y"
    "ext = ''ts'' \<or> ext = ''js''"
    unfolding grammar_iff by blast
  have "rmatch validate_pattern (0, s, Map.empty) \<noteq> []"
    using validate_pattern_complete [OF *, of Map.empty] unfolding s by auto
  then show "validateMigrationFileName s"
    unfolding validateMigrationFileName_def regex_test_def exec_from_validate_pattern
    by (auto split: list.splits)
qed

lemma parse_none: "s \<notin> spec_migration_file_names \<Longrightarrow> parseMigrationFileName s = None"
proof -
  assume no: "s \<notin> spec_migration_file_names"
  have "rmatch parse_pattern (0, s, Map.empty) = []"
  proof (cases "rmatch parse_pattern (0, s, Map.empty)")
    case Nil
    then show ?thesis .
  next
    case (Cons y ys)
    then have "y \<in> set (rmatch parse_pattern (0, s, Map.empty))" by simp
    from parse_pattern_sound [OF this] have "s \<in> spec_migration_file_names"
      unfolding grammar_iff by blast
    with no show ?thesis by simp
  qed
  then have "exec_from parse_pattern 0 s = None"
    by (simp add: exec_from_parse_pattern)
  then show ?thesis
    by (simp add: parseMigrationFileName_def string_match_def)
qed

text \<open>
  Writing a number in decimal and reading the digits back.
\<close>

lemma decimal_snoc: "decimal (ds @ [c]) = 10 * decimal ds + (of_char c - 48)"
  by (simp add: decimal_def)

lemma digit_char_value: "d < 10 \<Longrightarrow> (of_char (digit_char d) :: nat) - 48 = d"
  by (simp add: digit_char_def)

lemma is_digit_digit_char: "d < 10 \<Longrightarrow> is_digit (digit_char d)"
  unfolding in_digit [symmetric] by (simp add: in_class_def digit_char_def)

lemma decimal_toString10: "decimal (toString10 n) = n"
proof (induction n rule: toString10.induct)
  case (1 n)
  show ?case
  proof (cases "n < 10")
    case True
    then show ?thesis
      using decimal_snoc [of "[]" "digit_char n"]
      by (simp add: toString10.simps [of n] digit_char_value decimal_def)
  next
    case False
    with 1 show ?thesis
      by (simp add: toString10.simps [of n] decimal_snoc digit_char_value)
  qed
qed

lemma digits_toString10: "\<forall>c\<in>set (toString10 n). is_digit c"
proof (induction n rule: toString10.induct)
  case (1 n)
  show ?case
  proof (cases "n < 10")
    case True
    then show ?thesis
      by (simp add: toString10.simps [of n] is_digit_digit_char)
  next
    case False
    with 1 show ?thesis
      by (simp add: toString10.simps [of n] is_digit_digit_char)
  qed
qed

lemma length_toString10_le: "0 < k \<Longrightarrow> length (toString10 n) \<le> k \<longleftrightarrow> n < 10 ^ k"
proof (induction n arbitrary: k rule: toString10.induct)
  case (1 n)
  show ?case
  proof (cases "n < 10")
    case True
    have "(10::nat) ^ 1 \<le> 10 ^ k"
      using 1(2) by (intro power_increasing) simp_all
    with True 1(2) show ?thesis
      by (simp add: toString10.simps [of n] Suc_le_eq)
  next
    case False
    show ?thesis
    proof (cases k)
      case 0
      with 1(2) show ?thesis by simp
    next
      case (Suc j)
      show ?thesis
      proof (cases "j = 0")
        case True
        with Suc False show ?thesis
          by (simp add: toString10.simps [of n] toString10_not_Nil)
      next
        case j: False
        then have "length (toString10 (n div 10)) \<le> j \<longleftrightarrow> n div 10 < 10 ^ j"
          using 1(1) [OF False, of j] by simp
        moreover have "n div 10 < 10 ^ j \<longleftrightarrow> n < 10 ^ Suc j"
          by (simp add: div_less_iff_less_mult mult.commute)
        ultimately show ?thesis
          using False Suc by (simp add: toString10.simps [of n])
      qed
    qed
  qed
qed

lemma length_toString10_13: "10 ^ 12 \<le> n \<Longrightarrow> n < 10 ^ 13 \<Longrightarrow> length (toString10 n) = 13"
  using length_toString10_le [of 13 n] length_toString10_le [of 12 n] by simp

lemma parse_some:
  assumes "length ds = 13" and "\<forall>y\<in>set ds. is_digit y" and "nm \<noteq> []" and "is_letter (hd nm)"
    and "\<forall>y\<in>set (tl nm). is_letter y \<or> is_digit y" and "ext = ''ts'' \<or> ext = ''js''"
  shows "parseMigrationFileName (ds @ ''-'' @ nm @ ''.'' @ ext)
           = Some \<lparr>timestamp = Num (decimal ds), name = Some nm\<rparr>"
proof -
  from assms(3) obtain n ns where nm: "nm = n # ns" by (cases nm) auto
  with assms have *: "is_letter n" "\<forall>y\<in>set ns. is_letter y \<or> is_digit y" by simp_all
  have "takeWhile (in_class [(CHR ''0'', CHR ''9'')]) ds = ds"
    using assms(2) by (simp add: takeWhile_eq_all_conv in_digit)
  moreover from assms(1) obtain d ds' where "ds = d # ds'" by (cases ds) auto
  ultimately have "parseInt10 (Some ds) = Num (decimal ds)"
    by (simp add: parseInt10_def)
  then show ?thesis
    unfolding nm
    by (simp add: parseMigrationFileName_def string_match_def
        parse_pattern_exec [OF assms(1,2) * assms(6)] del: append.simps)
qed

text \<open>
  C4. \<^verbatim>\<open>validateMigrationFileName\<close> accepts exactly the strings of the specification's
  grammar. \<^verbatim>\<open>parseMigrationFileName\<close> returns \<^verbatim>\<open>null\<close> (\<open>None\<close>) for every string
  outside the grammar; it is a total function, so it never throws. For thirteen digits
  \<open>ds\<close>, a name \<open>nm\<close> of a letter followed by letters and digits, and the extension
  \<^verbatim>\<open>ts\<close> or \<^verbatim>\<open>js\<close>, it maps the file name \<open>ds-nm.ext\<close> to the number that \<open>ds\<close>
  writes and the name \<open>nm\<close>; in particular, for every timestamp \<open>t\<close> of thirteen
  digits (\<open>10 ^ 12 \<le> t < 10 ^ 13\<close>), written in decimal as a template literal writes it,
  it gives back \<open>t\<close> and \<open>nm\<close>.
\<close>

theorem migration_file_name_grammar_and_round_trip:
  "(\<forall>s. validateMigrationFileName s \<longleftrightarrow> s \<in> spec_migration_file_names)
   \<and> (\<forall>s. s \<notin> spec_migration_file_names \<longrightarrow> parseMigrationFileName s = None)
   \<and> (\<forall>ds nm ext.
        length ds = 13 \<and> (\<forall>d\<in>set ds. is_digit d)
        \<and> nm \<noteq> [] \<and> is_letter (hd nm) \<and> (\<forall>x\<in>set (tl nm). is_letter x \<or> is_digit x)
        \<and> (ext = ''ts'' \<or> ext = ''js'') \<longrightarrow>
        parseMigrationFileName (ds @ ''-'' @ nm @ ''.'' @ ext)
          = Some \<lparr>timestamp = Num (decimal ds), name = Some nm\<rparr>)
   \<and> (\<forall>t nm ext.
        10 ^ 12 \<le> t \<and> t < 10 ^ 13
        \<and> nm \<noteq> [] \<and> is_letter (hd nm) \<and> (\<forall>x\<in>set (tl nm). is_letter x \<or> is_digit x)
        \<and> (ext = ''ts'' \<or> ext = ''js'') \<longrightarrow>
        parseMigrationFileName (toString10 t @ ''-'' @ nm @ ''.'' @ ext)
          = Some \<lparr>timestamp = Num t, name = Some nm\<rparr>)"
proof (intro conjI allI impI)
  fix s
  show "validateMigrationFileName s \<longleftrightarrow> s \<in> spec_migration_file_names"
    by (rule validate_iff)
next
  fix s
  assume "s \<notin> spec_migration_file_names"
  then show "parseMigrationFileName s = None"
    by (rule parse_none)
next
  fix ds nm ext
  assume "length ds = 13 \<and> (\<forall>d\<in>set ds. is_digit d)
        \<and> nm \<noteq> [] \<and> is_letter (hd nm) \<and> (\<forall>x\<in>set (tl nm). is_letter x \<or> is_digit x)
        \<and> (ext = ''ts'' \<or> ext = ''js'')"
  then show "parseMigrationFileName (ds @ ''-'' @ nm @ ''.'' @ ext)
          = Some \<lparr>timestamp = Num (decimal ds), name = Some nm\<rparr>"
    by (intro parse_some) simp_all
next
  fix t :: nat and nm ext
  assume *: "10 ^ 12 \<le> t \<and> t < 10 ^ 13
        \<and> nm \<noteq> [] \<and> is_letter (hd nm) \<and> (\<forall>x\<in>set (tl nm). is_letter x \<or> is_digit x)
        \<and> (ext = ''ts'' \<or> ext = ''js'')"
  then have "length (toString10 t) = 13"
    by (intro length_toString10_13) simp_all
  with * have "parseMigrationFileName (toString10 t @ ''-'' @ nm @ ''.'' @ ext)
          = Some \<lparr>timestamp = Num (decimal (toString10 t)), name = Some nm\<rparr>"
    by (intro parse_some digits_toString10) simp_all
  then show "parseMigrationFileName (toString10 t @ ''-'' @ nm @ ''.'' @ ext)
          = Some \<lparr>timestamp = Num t, name = Some nm\<rparr>"
    by (simp only: decimal_toString10)
qed

theorem migration_file_name_grammar_and_round_trip_witness:
  "validateMigrationFileName ''1700000000000-AddUserTable.ts''
   \<and> ''12-Foo.ts'' \<notin> spec_migration_file_names
   \<and> ''1234567890123-1abc.ts'' \<notin> spec_migration_file_names
   \<and> parseMigrationFileName ''12-Foo.ts'' = None
   \<and> parseMigrationFileName ''1700000000000-AddUserTable.js''
       = Some \<lparr>timestamp = Num 1700000000000, name = Some ''AddUserTable''\<rparr>
   \<and> parseMigrationFileName ''0000000000042-a1.ts''
       = Some \<lparr>timestamp = Num 42, name = Some ''a1''\<rparr>"
proof -
  note main = migration_file_name_grammar_and_round_trip
  have v1: "\<not> validateMigrationFileName ''12-Foo.ts''"
    by code_simp
  have v2: "\<not> validateMigrationFileName ''1234567890123-1abc.ts''"
    by code_simp
  have s: "toString10 1700000000000 = ''1700000000000''"
    by (simp add: toString10.simps digit_char_def char_of_def bit_0)
  have n: "is_letter (hd ''AddUserTable'') \<and> (\<forall>x\<in>set (tl ''AddUserTable''). is_letter x \<or> is_digit x)"
    by (simp add: is_letter_def)
  have g: "''1700000000000-AddUserTable.ts'' \<in> spec_migration_file_names"
    unfolding spec_migration_file_names_def
    by (intro CollectI exI [of _ "''1700000000000''"] exI [of _ "''AddUserTable''"] exI [of _ "''ts''"])
      (simp add: is_letter_def is_digit_def)
  from main have
    "10 ^ 12 \<le> (1700000000000 :: nat) \<and> (1700000000000 :: nat) < 10 ^ 13
     \<and> ''AddUserTable'' \<noteq> [] \<and> is_letter (hd ''AddUserTable'')
     \<and> (\<forall>x\<in>set (tl ''AddUserTable''). is_letter x \<or> is_digit x)
     \<and> (''js'' = ''ts'' \<or> ''js'' = ''js'') \<longrightarrow>
     parseMigrationFileName (toString10 1700000000000 @ ''-'' @ ''AddUserTable'' @ ''.'' @ ''js'')
       = Some \<lparr>timestamp = Num 1700000000000, name = Some ''AddUserTable''\<rparr>"
    by blast
  with n have p:
    "parseMigrationFileName (toString10 1700000000000 @ ''-'' @ ''AddUserTable'' @ ''.'' @ ''js'')
       = Some \<lparr>timestamp = Num 1700000000000, name = Some ''AddUserTable''\<rparr>"
    by simp
  from main have v: "\<forall>s. validateMigrationFileName s \<longleftrightarrow> s \<in> spec_migration_file_names"
    and q: "\<forall>s. s \<notin> spec_migration_file_names \<longrightarrow> parseMigrationFileName s = None"
    by blast+
  from v v1 v2 g have "validateMigrationFileName ''1700000000000-AddUserTable.ts''"
    and "''12-Foo.ts'' \<notin> spec_migration_file_names"
    and "''1234567890123-1abc.ts'' \<notin> spec_migration_file_names"
    by simp_all
  moreover from this q have "parseMigrationFileName ''12-Foo.ts'' = None"
    by blast
  moreover from p have "parseMigrationFileName ''1700000000000-AddUserTable.js''
       = Some \<lparr>timestamp = Num 1700000000000, name = Some ''AddUserTable''\<rparr>"
    by (simp add: s)
  moreover have "parseMigrationFileName ''0000000000042-a1.ts''
       = Some \<lparr>timestamp = Num 42, name = Some ''a1''\<rparr>"
  proof -
    from main have
      "length ''0000000000042'' = 13 \<and> (\<forall>d\<in>set ''0000000000042''. is_digit d)
       \<and> ''a1'' \<noteq> [] \<and> is_letter (hd ''a1'')
       \<and> (\<forall>x\<in>set (tl ''a1''). is_letter x \<or> is_digit x)
       \<and> (''ts'' = ''ts'' \<or> ''ts'' = ''js'') \<longrightarrow>
       parseMigrationFileName (''0000000000042'' @ ''-'' @ ''a1'' @ ''.'' @ ''ts'')
         = Some \<lparr>timestamp = Num (decimal ''0000000000042''), name = Some ''a1''\<rparr>"
      by blast
    moreover have "decimal ''0000000000042'' = 42"
      by (simp add: decimal_def)
    ultimately show ?thesis
      by (simp add: is_digit_def is_letter_def)
  qed
  ultimately show ?thesis
    by blast
qed

subsection \<open>The order of the migrations\<close>

text \<open>
  What \<^verbatim>\<open>runMigrations\<close> returns and leaves behind, in terms of the one call of
  \<^verbatim>\<open>up()\<close> it makes; then the migrator of the specification.
\<close>

lemma runMigrations_after_up:
  assumes "getMikroORM env database
      (s\<lparr>trace := trace s
         @ [Logger LOG (''starting '' @ database @ '' database migrations...'') None]\<rparr>)
      = (Inr orm, s')"
  shows "fst (runMigrations env database s)
           = (case fst (migrator_up env orm (world s')) of Inl e \<Rightarrow> Inl e | Inr ms \<Rightarrow> Inr ())"
    and "world (snd (runMigrations env database s)) = snd (migrator_up env orm (world s'))"
  using assms
  by (auto simp add: runMigrations_def js_simps forEach_emit
      split: option.splits sum.splits list.splits prod.splits)

lemma snd_apply_units_Cons:
  "snd (apply_units (u # us) w) =
     (case unit_up u of
        Some e \<Rightarrow> w
      | None \<Rightarrow>
          snd (apply_units us
                 (w\<lparr>units := mark_executed (unit_name u) (units w),
                    applied_order := applied_order w @ [unit_name u]\<rparr>)))"
  by (simp split: option.splits prod.splits sum.splits)

lemma fst_apply_units_Cons:
  "fst (apply_units (u # us) w) =
     (case unit_up u of
        Some e \<Rightarrow> Inl e
      | None \<Rightarrow>
          (case fst (apply_units us
                      (w\<lparr>units := mark_executed (unit_name u) (units w),
                         applied_order := applied_order w @ [unit_name u]\<rparr>)) of
             Inl e \<Rightarrow> Inl e
           | Inr names \<Rightarrow> Inr (unit_name u # names)))"
  by (simp split: option.splits prod.splits sum.splits)

lemma apply_units_order:
  "applied_order (snd (apply_units us w))
     = applied_order w @ map unit_name (takeWhile (\<lambda>u. unit_up u = None) us)"
  by (induction us arbitrary: w)
    (simp_all add: snd_apply_units_Cons del: apply_units.simps(2) split: option.splits)

lemma apply_units_result:
  "fst (apply_units us w) =
     (case List.map_filter unit_up us of [] \<Rightarrow> Inr (map unit_name us) | e # _ \<Rightarrow> Inl e)"
  by (induction us arbitrary: w)
    (simp_all add: fst_apply_units_Cons List.map_filter_simps del: apply_units.simps(2)
      split: option.splits list.splits)

lemma sorted_pending: "sorted (map unit_timestamp (pending_units w))"
  by (simp add: pending_units_def)

lemma sorted_takeWhile_map: "sorted (map f xs) \<Longrightarrow> sorted (map f (takeWhile P xs))"
  by (induction xs) (auto dest: set_takeWhileD)

lemma distinct_pending:
  assumes "distinct (map unit_timestamp (units w))"
  shows "distinct (map unit_timestamp (takeWhile P (pending_units w)))"
proof -
  from assms have "distinct (units w)" and inj: "inj_on unit_timestamp (set (units w))"
    by (simp_all add: distinct_map)
  then have "distinct (takeWhile P (pending_units w))"
    by (simp add: pending_units_def)
  moreover have "set (takeWhile P (pending_units w)) \<subseteq> set (units w)"
    by (auto simp add: pending_units_def dest: set_takeWhileD)
  with inj have "inj_on unit_timestamp (set (takeWhile P (pending_units w)))"
    by (rule inj_on_subset)
  ultimately show ?thesis
    by (simp add: distinct_map)
qed

lemma strictly_ascending_prefix:
  assumes "distinct (map unit_timestamp (units w))"
  shows "sorted_wrt (<) (map unit_timestamp (takeWhile P (pending_units w)))"
  using distinct_pending [OF assms] sorted_takeWhile_map [OF sorted_pending]
  by (simp add: strict_sorted_iff)

lemma snd_spec_migrator_up:
  "snd (spec_migrator_up orm w) = snd (apply_units (pending_units w) w)"
  by (simp add: spec_migrator_up_def split: prod.splits sum.splits)

lemma fst_spec_migrator_up:
  "(case fst (spec_migrator_up orm w) of Inl e \<Rightarrow> Inl e | Inr ms \<Rightarrow> Inr ()) =
     (case fst (apply_units (pending_units w) w) of Inl e \<Rightarrow> Inl e | Inr names \<Rightarrow> Inr ())"
  by (simp add: spec_migrator_up_def split: prod.splits sum.splits)

lemma spec_migrator_up_order:
  "applied_order (snd (spec_migrator_up orm w))
     = applied_order w @ map unit_name (takeWhile (\<lambda>u. unit_up u = None) (pending_units w))"
  by (simp add: snd_spec_migrator_up apply_units_order)

lemma spec_migrator_up_result:
  "(case fst (spec_migrator_up orm w) of Inl e \<Rightarrow> Inl e | Inr ms \<Rightarrow> Inr ()) =
     (case List.map_filter unit_up (pending_units w) of [] \<Rightarrow> Inr () | e # _ \<Rightarrow> Inl e)"
  by (simp add: fst_spec_migrator_up apply_units_result split: list.splits)

text \<open>
  C1, with the migrator modelled from the specification. \<^verbatim>\<open>runMigrations\<close> calls the
  migrator's \<^verbatim>\<open>up()\<close> once and throws what it throws. With a migrator that does what
  the specification says, for every database target whose connection resolves:
  the units applied, in the order of their application, are the pending units in
  ascending order of timestamp up to, and without, the first one whose apply fails. So
  no unit is applied out of order, no pending unit before an applied one is skipped, and
  no unit after a failed one is applied. The timestamps of the applied units ascend,
  strictly when the units' timestamps are distinct. The call returns normally when no
  pending unit fails and throws the first failure otherwise.
\<close>

theorem runMigrations_applies_pending_units_in_timestamp_order:
  assumes "getMikroORM (env\<lparr>migrator_up := spec_migrator_up\<rparr>) database
      (s\<lparr>trace := trace s
         @ [Logger LOG (''starting '' @ database @ '' database migrations...'') None]\<rparr>)
      = (Inr orm, s')"
  shows "applied_order
           (world (snd (runMigrations (env\<lparr>migrator_up := spec_migrator_up\<rparr>) database s)))
      = applied_order (world s')
          @ map unit_name (takeWhile (\<lambda>u. unit_up u = None) (pending_units (world s')))
    \<and> sorted (map unit_timestamp
        (takeWhile (\<lambda>u. unit_up u = None) (pending_units (world s'))))
    \<and> (distinct (map unit_timestamp (units (world s'))) \<longrightarrow>
        sorted_wrt (<) (map unit_timestamp
          (takeWhile (\<lambda>u. unit_up u = None) (pending_units (world s')))))
    \<and> fst (runMigrations (env\<lparr>migrator_up := spec_migrator_up\<rparr>) database s) =
       (case List.map_filter unit_up (pending_units (world s')) of
          [] \<Rightarrow> Inr ()
        | e # _ \<Rightarrow> Inl e)"
  using runMigrations_after_up [OF assms]
  by (simp add: spec_migrator_up_order spec_migrator_up_result sorted_takeWhile_map
      sorted_pending strictly_ascending_prefix)

text \<open>
  With pending units T1 < T2 < T3, listed out of order: all three are applied in the order
  T1, T2, T3; and when T2 fails, T1 alone is applied and the call throws T2's error.
\<close>

theorem runMigrations_applies_pending_units_in_timestamp_order_witness:
  "applied_order
     (world (snd (runMigrations (quiet_env\<lparr>migrator_up := spec_migrator_up\<rparr>) ''postgresql''
        (fresh_state \<lparr>units = three_units None, applied_order = []\<rparr>))))
     = [''T1'', ''T2'', ''T3'']
   \<and> applied_order
     (world (snd (runMigrations (quiet_env\<lparr>migrator_up := spec_migrator_up\<rparr>) ''mongodb''
        (fresh_state \<lparr>units = three_units (Some (Error ''T2 failed'')), applied_order = []\<rparr>))))
     = [''T1'']
   \<and> fst (runMigrations (quiet_env\<lparr>migrator_up := spec_migrator_up\<rparr>) ''mongodb''
        (fresh_state \<lparr>units = three_units (Some (Error ''T2 failed'')), applied_order = []\<rparr>))
     = Inl (Error ''T2 failed'')"
proof -
  let ?env = "quiet_env\<lparr>migrator_up := spec_migrator_up\<rparr>"
  let ?a = "fresh_state \<lparr>units = three_units None, applied_order = []\<rparr>"
  let ?b = "fresh_state \<lparr>units = three_units (Some (Error ''T2 failed'')), applied_order = []\<rparr>"
  have a: "getMikroORM ?env ''postgresql''
      (?a\<lparr>trace := trace ?a
         @ [Logger LOG (''starting '' @ ''postgresql'' @ '' database migrations...'') None]\<rparr>)
      = (Inr 1, ?a\<lparr>trace :=
           [Logger LOG ''starting postgresql database migrations...'' None, Call (GetKnex 1)]\<rparr>)"
    by (simp add: getMikroORM_def getPostgresConnection_def js_simps quiet_env_def
        fresh_state_def)
  have b: "getMikroORM ?env ''mongodb''
      (?b\<lparr>trace := trace ?b
         @ [Logger LOG (''starting '' @ ''mongodb'' @ '' database migrations...'') None]\<rparr>)
      = (Inr 2, ?b\<lparr>trace :=
           [Logger LOG ''starting mongodb database migrations...'' None, Call (GetKnex 2)]\<rparr>)"
    by (simp add: getMikroORM_def getMongoConnection_def js_simps quiet_env_def
        fresh_state_def)
  have pa: "pending_units \<lparr>units = three_units None, applied_order = []\<rparr>
      = [pending_unit ''T1'' 1700000000001 None, pending_unit ''T2'' 1700000000002 None,
         pending_unit ''T3'' 1700000000003 None]"
    by (simp add: pending_units_def three_units_def pending_unit_def)
  have pb: "pending_units \<lparr>units = three_units (Some (Error ''T2 failed'')), applied_order = []\<rparr>
      = [pending_unit ''T1'' 1700000000001 None,
         pending_unit ''T2'' 1700000000002 (Some (Error ''T2 failed'')),
         pending_unit ''T3'' 1700000000003 None]"
    by (simp add: pending_units_def three_units_def pending_unit_def)
  show ?thesis
    using runMigrations_applies_pending_units_in_timestamp_order [OF a]
      runMigrations_applies_pending_units_in_timestamp_order [OF b]
    by (simp add: pa pb fresh_state_def pending_unit_def List.map_filter_simps)
qed

subsection \<open>Transactions\<close>

text \<open>
  C2, with \<^verbatim>\<open>em.transactional\<close> modelled from the specification. \<^verbatim>\<open>transaction\<close> hands
  the callback to \<^verbatim>\<open>em.transactional\<close>, logs, and returns its value or throws its error
  again; it persists nothing itself. For every database target whose connection resolves
  and every callback: when the callback throws, the call throws the same error, the
  persisted entities are those from before the call (nothing the callback wrote is
  visible), and the rollback is the last thing the transaction manager did, before the
  failure is logged and the error thrown again; when the callback returns, its value is
  returned and all its writes are committed.
\<close>

theorem transaction_is_all_or_nothing:
  "getEntityManager database s = (Inr h, s) \<Longrightarrow>
   work h ((world s)\<lparr>tx_log := tx_log (world s) @ [Begin]\<rparr>) = (r, w') \<Longrightarrow>
   fst (transaction spec_transactional database work s) = r
   \<and> store (world (snd (transaction spec_transactional database work s)))
       = (case r of Inl e \<Rightarrow> store (world s) | Inr x \<Rightarrow> store w')
   \<and> tx_log (world (snd (transaction spec_transactional database work s)))
       = tx_log w' @ [case r of Inl e \<Rightarrow> Rollback | Inr x \<Rightarrow> Commit]
   \<and> (\<forall>e. r = Inl e \<longrightarrow>
        trace (snd (transaction spec_transactional database work s))
          = trace s @ [Call (Transactional h),
                       Logger ERROR (''transaction failed: '' @ database) (Some e)])"
  by (auto simp add: transaction_def spec_transactional_def js_simps
      split: sum.splits prod.splits)

theorem transaction_is_all_or_nothing_witness:
  "fst (transaction spec_transactional ''postgresql'' write_then_fail
          (fresh_state \<lparr>store = Map.empty, tx_log = []\<rparr>))
     = Inl (Error ''constraint violated'')
   \<and> store (world (snd (transaction spec_transactional ''postgresql'' write_then_fail
          (fresh_state \<lparr>store = Map.empty, tx_log = []\<rparr>)))) ''user-1'' = None
   \<and> tx_log (world (snd (transaction spec_transactional ''postgresql'' write_then_fail
          (fresh_state \<lparr>store = Map.empty, tx_log = []\<rparr>)))) = [Begin, Rollback]"
proof -
  let ?s = "fresh_state \<lparr>store = Map.empty :: string \<rightharpoonup> string, tx_log = []\<rparr>"
  have h: "getEntityManager ''postgresql'' ?s = (Inr 1, ?s)"
    by (simp add: getEntityManager_def getPostgresConnection_def fresh_state_def)
  have w: "write_then_fail 1 ((world ?s)\<lparr>tx_log := tx_log (world ?s) @ [Begin]\<rparr>)
      = (Inl (Error ''constraint violated''),
         \<lparr>store = [''user-1'' \<mapsto> ''Ada''], tx_log = [Begin]\<rparr>)"
    by (simp add: write_then_fail_def fresh_state_def)
  show ?thesis
    using transaction_is_all_or_nothing
      [where database = "''postgresql''" and s = ?s and h = 1 and work = write_then_fail, OF h w]
    by (simp add: fresh_state_def)
qed

end
